theory Spec2Isabelle
  imports Main "HOL-Library.Word" "HOL-Library.Multiset"
begin

section \<open>The shader editor of src/studio/shader\_editor.cpp\<close>

text \<open>
  The node graph, its connections, the undo stack, code generation and persistence of
  \<^verbatim>\<open>ShaderEditor\<close>, as a shallow embedding. Nodes live in an explicit store, because the
  source links them by raw pointers in both directions and several claims depend on that
  aliasing. Everything the source can do wrong at run time is a value of \<open>error\<close>:
  a null or freed pointer that is dereferenced, an index outside an \<^verbatim>\<open>Array\<close>, a failed
  \<^verbatim>\<open>ASSERT\<close>. What the source does not check goes on as the compiled program does:
  \<^verbatim>\<open>int\<close> arithmetic wraps, and a \<^verbatim>\<open>static_cast\<close> to the wrong class reads the members that
  lie where the members of the right class would.
\<close>

subsection \<open>Errors\<close>

datatype error =
    NullDeref
  | UseAfterFree
  | AssertFailed
  | OutOfBounds
  | BadCast
  | BadBlob
  | OutOfFuel

definition andThen :: "error + 'a \<Rightarrow> ('a \<Rightarrow> error + 'b) \<Rightarrow> error + 'b" where
  "andThen m f = (case m of Inl e \<Rightarrow> Inl e | Inr x \<Rightarrow> f x)"

subsection \<open>Values\<close>

text \<open>
  A C \<^verbatim>\<open>float\<close> is kept as its 32-bit pattern: the editor only stores, copies, saves and
  prints floats. A C \<^verbatim>\<open>int\<close> is an \<open>int\<close>; the two places that add one to it
  (\<^verbatim>\<open>++m_last_node_id\<close> and \<^verbatim>\<open>m_id + 1\<close>) have no check in the source, and the sum wraps
  around as it does in the compiled program: one more than \<open>INT_MAX\<close> is \<open>INT_MIN\<close>.
\<close>

type_synonym float = "32 word"
type_synonym ImVec2 = "float \<times> float"
type_synonym addr = nat

definition INT_MAX :: int where
  "INT_MAX = 2147483647"

definition INT_MIN :: int where
  "INT_MIN = - 2147483648"

datatype ShaderType = VERTEX | FRAGMENT

text \<open>
  The value of an enumerator of \<^verbatim>\<open>ShaderType\<close>. The declaration is in shader\_editor.h,
  which is not among the sources; the enumerators are numbered in the order above.
\<close>

definition shaderTypeInt :: "ShaderType \<Rightarrow> int" where
  "shaderTypeInt t = (case t of VERTEX \<Rightarrow> 0 | FRAGMENT \<Rightarrow> 1)"

datatype ValueType = NONE | FLOAT | VEC2 | VEC3 | VEC4 | MATRIX3 | MATRIX4

datatype NodeType =
    VERTEX_INPUT
  | VERTEX_OUTPUT
  | POSITION_OUTPUT
  | FRAGMENT_INPUT
  | FRAGMENT_OUTPUT
  | FLOAT_CONST
  | COLOR_CONST
  | SAMPLE
  | MIX
  | UNIFORM
  | VEC4_MERGE
  | MULTIPLY
  | BUILTIN_UNIFORM

text \<open>The enumerators of \<^verbatim>\<open>enum class NodeType\<close> in declaration order, from 0.\<close>

fun nodeTypeInt :: "NodeType \<Rightarrow> int" where
  "nodeTypeInt VERTEX_INPUT = 0"
| "nodeTypeInt VERTEX_OUTPUT = 1"
| "nodeTypeInt POSITION_OUTPUT = 2"
| "nodeTypeInt FRAGMENT_INPUT = 3"
| "nodeTypeInt FRAGMENT_OUTPUT = 4"
| "nodeTypeInt FLOAT_CONST = 5"
| "nodeTypeInt COLOR_CONST = 6"
| "nodeTypeInt SAMPLE = 7"
| "nodeTypeInt MIX = 8"
| "nodeTypeInt UNIFORM = 9"
| "nodeTypeInt VEC4_MERGE = 10"
| "nodeTypeInt MULTIPLY = 11"
| "nodeTypeInt BUILTIN_UNIFORM = 12"

subsection \<open>Nodes\<close>

text \<open>
  The dynamic class of a node with the members that class adds. \<open>m_type\<close> of the base
  class is a separate field: \<^verbatim>\<open>UniformNode::load\<close> writes to it.
\<close>

datatype NodeClass =
    MultiplyNode
  | Vec4MergeNode
  | FloatConstNode (m_float: float)
  | ColorConstNode (m_color0: float) (m_color1: float) (m_color2: float) (m_color3: float)
  | SampleNode (m_texture: int)
  | VertexInputNode (m_input: int)
  | FragmentInputNode (m_attribute: int)
  | VertexOutputNode (m_output_idx: int)
  | PositionOutputNode
  | FragmentOutputNode
  | MixNode
  | BuiltinUniformNode (m_uniform: int)
  | UniformNode (m_name: string) (m_value_type: ValueType)

record Node =
  m_type :: int
  m_id :: int
  m_pos :: ImVec2
  m_inputs :: "addr option list"
  m_outputs :: "addr option list"
  m_class :: NodeClass

subsection \<open>Commands\<close>

text \<open>
  A binary \<^verbatim>\<open>OutputBlob\<close> (core/blob.h is not among the sources) is the sequence of the
  values written to it, each with the C type it was written as.
\<close>

datatype cell = CInt int | CFloat float | CString string | CBools "bool list"

type_synonym blob = "cell list"

record MoveNodeCommand =
  mv_node :: int
  mv_new_pos :: ImVec2
  mv_old_pos :: ImVec2

record CreateConnectionCommand =
  m_before_to :: int
  m_before_to_pin :: int
  m_before_from :: int
  m_before_from_pin :: int
  m_from_pin :: int
  m_to_pin :: int
  m_from :: int
  m_to :: int

record RemoveNodeCommand =
  rm_shader_type :: ShaderType
  rm_blob :: blob
  rm_node_id :: int

record CreateNodeCommand =
  cn_id :: int
  cn_shader_type :: ShaderType
  cn_node :: "addr option"
  cn_type :: NodeType
  cn_pos :: ImVec2

datatype ICommand =
    Move MoveNodeCommand
  | Connect CreateConnectionCommand
  | Remove RemoveNodeCommand
  | Create CreateNodeCommand

subsection \<open>The editor\<close>

text \<open>
  \<open>heap\<close> holds the nodes that \<^verbatim>\<open>LUMIX_NEW\<close> has allocated and \<^verbatim>\<open>LUMIX_DELETE\<close> has not
  freed; \<open>next_addr\<close> is the next fresh address, so a freed address is never handed
  out again and a pointer to a freed node stays dangling. \<open>uninit\<close> is what the program
  finds in memory that it reads without having written it; it is an input of the model.
\<close>

record ShaderEditor =
  heap :: "addr \<Rightarrow> Node option"
  next_addr :: addr
  m_fragment_nodes :: "addr list"
  m_vertex_nodes :: "addr list"
  m_undo_stack :: "ICommand list"
  m_undo_stack_idx :: int
  m_last_node_id :: int
  m_textures :: "string list"
  m_vertex_outputs :: "string list"
  m_vertex_inputs :: "bool list"
  uninit :: float

subsection \<open>Lumix::Array\<close>

text \<open>
  Modelled from the spec: \<^verbatim>\<open>Lumix::Array\<close> (core/array.h, not among the sources). The spec
  has a pin recovered "by scanning the peer's pin array for a self-match" and a failed
  scan as an assertion; \<open>indexOf\<close> is that scan, with -1 for no match, \<open>eraseItem\<close>
  removes the first match, and an index outside the array is an error.
\<close>

fun indexOf :: "'a list \<Rightarrow> 'a \<Rightarrow> int" where
  "indexOf [] x = -1"
| "indexOf (y # ys) x =
     (if y = x then 0 else (let i = indexOf ys x in if i < 0 then -1 else i + 1))"

definition at :: "'a list \<Rightarrow> int \<Rightarrow> error + 'a" where
  "at xs i = (if 0 \<le> i \<and> i < int (length xs) then Inr (xs ! nat i) else Inl OutOfBounds)"

definition put :: "'a list \<Rightarrow> int \<Rightarrow> 'a \<Rightarrow> error + 'a list" where
  "put xs i v =
     (if 0 \<le> i \<and> i < int (length xs) then Inr (xs[nat i := v]) else Inl OutOfBounds)"

definition eraseItem :: "'a list \<Rightarrow> 'a \<Rightarrow> 'a list" where
  "eraseItem xs x = remove1 x xs"

subsection \<open>Pointers\<close>

definition deref :: "ShaderEditor \<Rightarrow> addr \<Rightarrow> error + Node" where
  "deref s p = (case heap s p of None \<Rightarrow> Inl UseAfterFree | Some n \<Rightarrow> Inr n)"

definition nonnull :: "addr option \<Rightarrow> error + addr" where
  "nonnull p = (case p of None \<Rightarrow> Inl NullDeref | Some a \<Rightarrow> Inr a)"

definition store :: "ShaderEditor \<Rightarrow> addr \<Rightarrow> Node \<Rightarrow> ShaderEditor" where
  "store s p n = s\<lparr>heap := (heap s)(p \<mapsto> n)\<rparr>"

subsection \<open>getNodeByID\<close>

fun find_id :: "(addr \<Rightarrow> Node option) \<Rightarrow> addr list \<Rightarrow> int \<Rightarrow> error + addr option" where
  "find_id h [] i = Inr None"
| "find_id h (p # ps) i =
     (case h p of
        None \<Rightarrow> Inl UseAfterFree
      | Some n \<Rightarrow> if m_id n = i then Inr (Some p) else find_id h ps i)"

definition getNodeByID :: "ShaderEditor \<Rightarrow> int \<Rightarrow> error + addr option" where
  "getNodeByID s i =
     (case find_id (heap s) (m_fragment_nodes s) i of
        Inl e \<Rightarrow> Inl e
      | Inr (Some p) \<Rightarrow> Inr (Some p)
      | Inr None \<Rightarrow> find_id (heap s) (m_vertex_nodes s) i)"

subsection \<open>Loops\<close>

text \<open>A range-for over a snapshot of an array; the first error ends it.\<close>

fun forEach :: "'a list \<Rightarrow> ('s \<Rightarrow> 'a \<Rightarrow> error + 's) \<Rightarrow> 's \<Rightarrow> error + 's" where
  "forEach [] f s = Inr s"
| "forEach (x # xs) f s = (case f s x of Inl e \<Rightarrow> Inl e | Inr s' \<Rightarrow> forEach xs f s')"

fun collect :: "'a list \<Rightarrow> ('a \<Rightarrow> error + 'b list) \<Rightarrow> error + 'b list" where
  "collect [] f = Inr []"
| "collect (x # xs) f =
     (case f x of
        Inl e \<Rightarrow> Inl e
      | Inr a \<Rightarrow> (case collect xs f of Inl e \<Rightarrow> Inl e | Inr b \<Rightarrow> Inr (a @ b)))"

subsection \<open>removeConnection\<close>

definition removeConnection :: "ShaderEditor \<Rightarrow> addr \<Rightarrow> int \<Rightarrow> bool \<Rightarrow> error + ShaderEditor" where
  "removeConnection s node pin_index is_input =
     andThen (deref s node) (\<lambda>n.
       if is_input then
         andThen (at (m_inputs n) pin_index) (\<lambda>peer.
           case peer of
             None \<Rightarrow> Inr s
           | Some q \<Rightarrow>
               andThen (deref s q) (\<lambda>qn.
                 let index = indexOf (m_outputs qn) (Some node) in
                 if index < 0 then Inl AssertFailed
                 else
                   andThen (put (m_outputs qn) index None) (\<lambda>outs.
                     let s1 = store s q (qn\<lparr>m_outputs := outs\<rparr>) in
                     andThen (deref s1 node) (\<lambda>n1.
                       andThen (put (m_inputs n1) pin_index None) (\<lambda>ins.
                         Inr (store s1 node (n1\<lparr>m_inputs := ins\<rparr>)))))))
       else
         andThen (at (m_outputs n) pin_index) (\<lambda>peer.
           case peer of
             None \<Rightarrow> Inr s
           | Some q \<Rightarrow>
               andThen (deref s q) (\<lambda>qn.
                 let index = indexOf (m_inputs qn) (Some node) in
                 if index < 0 then Inl AssertFailed
                 else
                   andThen (put (m_inputs qn) index None) (\<lambda>ins.
                     let s1 = store s q (qn\<lparr>m_inputs := ins\<rparr>) in
                     andThen (deref s1 node) (\<lambda>n1.
                       andThen (put (m_outputs n1) pin_index None) (\<lambda>outs.
                         Inr (store s1 node (n1\<lparr>m_outputs := outs\<rparr>))))))))"

subsection \<open>Creating and destroying nodes\<close>

text \<open>
  The constructors of the node classes. \<^verbatim>\<open>Node::Node\<close> leaves \<open>m_id\<close> and \<open>m_pos\<close>
  unset; every caller assigns both before anything reads them, and the model starts them
  at 0. \<^verbatim>\<open>VertexInput::POSITION\<close> and \<^verbatim>\<open>BuiltinUniform::MODEL_MTX\<close> are the first
  enumerators, 0.
\<close>

definition mkNode :: "NodeType \<Rightarrow> nat \<Rightarrow> nat \<Rightarrow> NodeClass \<Rightarrow> Node" where
  "mkNode t n_in n_out c =
     \<lparr>m_type = nodeTypeInt t, m_id = 0, m_pos = (0, 0),
      m_inputs = replicate n_in None, m_outputs = replicate n_out None, m_class = c\<rparr>"

fun newNode :: "NodeType \<Rightarrow> Node" where
  "newNode FRAGMENT_OUTPUT = mkNode FRAGMENT_OUTPUT 1 0 FragmentOutputNode"
| "newNode VERTEX_OUTPUT = mkNode VERTEX_OUTPUT 1 0 (VertexOutputNode 0)"
| "newNode FRAGMENT_INPUT = mkNode FRAGMENT_INPUT 0 1 (FragmentInputNode 0)"
| "newNode POSITION_OUTPUT = mkNode POSITION_OUTPUT 1 0 PositionOutputNode"
| "newNode VERTEX_INPUT = mkNode VERTEX_INPUT 0 1 (VertexInputNode 0)"
| "newNode COLOR_CONST = mkNode COLOR_CONST 0 1 (ColorConstNode 0 0 0 0)"
| "newNode FLOAT_CONST = mkNode FLOAT_CONST 0 1 (FloatConstNode 0)"
| "newNode MIX = mkNode MIX 3 1 MixNode"
| "newNode SAMPLE = mkNode SAMPLE 1 1 (SampleNode 0)"
| "newNode UNIFORM = mkNode UNIFORM 0 1 (UniformNode [] VEC4)"
| "newNode VEC4_MERGE = mkNode VEC4_MERGE 5 1 Vec4MergeNode"
| "newNode MULTIPLY = mkNode MULTIPLY 2 1 MultiplyNode"
| "newNode BUILTIN_UNIFORM = mkNode BUILTIN_UNIFORM 0 1 (BuiltinUniformNode 0)"

definition nodeTypeOfInt :: "int \<Rightarrow> NodeType option" where
  "nodeTypeOfInt i =
     (if i = 0 then Some VERTEX_INPUT else if i = 1 then Some VERTEX_OUTPUT
      else if i = 2 then Some POSITION_OUTPUT else if i = 3 then Some FRAGMENT_INPUT
      else if i = 4 then Some FRAGMENT_OUTPUT else if i = 5 then Some FLOAT_CONST
      else if i = 6 then Some COLOR_CONST else if i = 7 then Some SAMPLE
      else if i = 8 then Some MIX else if i = 9 then Some UNIFORM
      else if i = 10 then Some VEC4_MERGE else if i = 11 then Some MULTIPLY
      else if i = 12 then Some BUILTIN_UNIFORM else None)"

definition alloc :: "ShaderEditor \<Rightarrow> Node \<Rightarrow> addr \<times> ShaderEditor" where
  "alloc s n =
     (next_addr s, s\<lparr>heap := (heap s)(next_addr s \<mapsto> n), next_addr := Suc (next_addr s)\<rparr>)"

definition createNode :: "ShaderEditor \<Rightarrow> int \<Rightarrow> error + addr \<times> ShaderEditor" where
  "createNode s t =
     (case nodeTypeOfInt t of
        None \<Rightarrow> Inl AssertFailed
      | Some k \<Rightarrow> Inr (alloc s (newNode k)))"

definition pushNode :: "ShaderEditor \<Rightarrow> addr \<Rightarrow> ShaderType \<Rightarrow> ShaderEditor" where
  "pushNode s node t =
     (if t = FRAGMENT then s\<lparr>m_fragment_nodes := m_fragment_nodes s @ [node]\<rparr>
      else s\<lparr>m_vertex_nodes := m_vertex_nodes s @ [node]\<rparr>)"

text \<open>
  \<^verbatim>\<open>node->m_id = ++m_last_node_id\<close>: nothing checks the counter before the increment, and
  the increment of \<open>INT_MAX\<close> gives \<open>INT_MIN\<close>.
\<close>

definition addNode :: "ShaderEditor \<Rightarrow> addr \<Rightarrow> ImVec2 \<Rightarrow> ShaderType \<Rightarrow> error + ShaderEditor" where
  "addNode s node pos t =
     (let s1 = pushNode s node t in
      andThen (deref s1 node) (\<lambda>n.
        if m_last_node_id s1 = INT_MAX then
          Inr (store (s1\<lparr>m_last_node_id := INT_MIN\<rparr>) node (n\<lparr>m_pos := pos, m_id := INT_MIN\<rparr>))
        else
          let l = m_last_node_id s1 + 1 in
          Inr (store (s1\<lparr>m_last_node_id := l\<rparr>) node (n\<lparr>m_pos := pos, m_id := l\<rparr>))))"

text \<open>\<^verbatim>\<open>Node::~Node\<close>, then the memory is freed.\<close>

definition eraseFromInputs :: "addr \<Rightarrow> ShaderEditor \<Rightarrow> addr option \<Rightarrow> error + ShaderEditor" where
  "eraseFromInputs this s output =
     (case output of
        None \<Rightarrow> Inr s
      | Some q \<Rightarrow>
          andThen (deref s q) (\<lambda>qn.
            Inr (store s q (qn\<lparr>m_inputs := eraseItem (m_inputs qn) (Some this)\<rparr>))))"

definition eraseFromOutputs :: "addr \<Rightarrow> ShaderEditor \<Rightarrow> addr option \<Rightarrow> error + ShaderEditor" where
  "eraseFromOutputs this s input =
     (case input of
        None \<Rightarrow> Inr s
      | Some q \<Rightarrow>
          andThen (deref s q) (\<lambda>qn.
            Inr (store s q (qn\<lparr>m_outputs := eraseItem (m_outputs qn) (Some this)\<rparr>))))"

definition deleteNode :: "ShaderEditor \<Rightarrow> addr \<Rightarrow> error + ShaderEditor" where
  "deleteNode s this =
     andThen (deref s this) (\<lambda>n.
     andThen (forEach (m_outputs n) (eraseFromInputs this) s) (\<lambda>s1.
     andThen (deref s1 this) (\<lambda>n1.
     andThen (forEach (m_inputs n1) (eraseFromOutputs this) s1) (\<lambda>s2.
       Inr (s2\<lparr>heap := (heap s2)(this := None)\<rparr>)))))"

definition nullOutputTo :: "addr \<Rightarrow> ShaderEditor \<Rightarrow> addr option \<Rightarrow> error + ShaderEditor" where
  "nullOutputTo node s input =
     (case input of
        None \<Rightarrow> Inr s
      | Some q \<Rightarrow>
          andThen (deref s q) (\<lambda>qn.
          andThen (put (m_outputs qn) (indexOf (m_outputs qn) (Some node)) None) (\<lambda>outs.
            Inr (store s q (qn\<lparr>m_outputs := outs\<rparr>)))))"

definition nullInputFrom :: "addr \<Rightarrow> ShaderEditor \<Rightarrow> addr option \<Rightarrow> error + ShaderEditor" where
  "nullInputFrom node s output =
     (case output of
        None \<Rightarrow> Inr s
      | Some q \<Rightarrow>
          andThen (deref s q) (\<lambda>qn.
          andThen (put (m_inputs qn) (indexOf (m_inputs qn) (Some node)) None) (\<lambda>ins.
            Inr (store s q (qn\<lparr>m_inputs := ins\<rparr>)))))"

definition destroyNode :: "ShaderEditor \<Rightarrow> addr \<Rightarrow> error + ShaderEditor" where
  "destroyNode s node =
     andThen (deref s node) (\<lambda>n.
     andThen (forEach (m_inputs n) (nullOutputTo node) s) (\<lambda>s1.
     andThen (deref s1 node) (\<lambda>n1.
     andThen (forEach (m_outputs n1) (nullInputFrom node) s1) (\<lambda>s2.
     andThen (deleteNode s2 node) (\<lambda>s3.
       Inr (s3\<lparr>m_fragment_nodes := eraseItem (m_fragment_nodes s3) node,
               m_vertex_nodes := eraseItem (m_vertex_nodes s3) node\<rparr>))))))"

subsection \<open>Saving and loading one node\<close>

text \<open>
  Modelled from the spec: \<^verbatim>\<open>InputBlob\<close> (core/blob.h, not among the sources) reads the
  values back "in fixed field order"; a read that does not find a value of the type it
  asks for is \<open>BadBlob\<close>. \<^verbatim>\<open>Node::save\<close> and \<^verbatim>\<open>Node::load\<close> of the base class
  (shader\_editor.h, not among the sources) do nothing: "nodes with no payload are
  no-ops".
\<close>

definition read_int :: "blob \<Rightarrow> error + int \<times> blob" where
  "read_int b = (case b of CInt i # r \<Rightarrow> Inr (i, r) | _ \<Rightarrow> Inl BadBlob)"

definition read_float :: "blob \<Rightarrow> error + float \<times> blob" where
  "read_float b = (case b of CFloat f # r \<Rightarrow> Inr (f, r) | _ \<Rightarrow> Inl BadBlob)"

definition read_string :: "blob \<Rightarrow> error + string \<times> blob" where
  "read_string b = (case b of CString x # r \<Rightarrow> Inr (x, r) | _ \<Rightarrow> Inl BadBlob)"

definition read_bools :: "nat \<Rightarrow> blob \<Rightarrow> error + bool list \<times> blob" where
  "read_bools n b =
     (case b of
        CBools x # r \<Rightarrow> if length x = n then Inr (x, r) else Inl BadBlob
      | _ \<Rightarrow> Inl BadBlob)"

fun Node_save :: "Node \<Rightarrow> blob" where
  "Node_save n =
     (case m_class n of
        FloatConstNode v \<Rightarrow> [CFloat v]
      | ColorConstNode c0 c1 c2 c3 \<Rightarrow> [CFloat c0, CFloat c1, CFloat c2, CFloat c3]
      | SampleNode t \<Rightarrow> [CInt t]
      | VertexInputNode i \<Rightarrow> [CInt i]
      | FragmentInputNode a \<Rightarrow> [CInt a]
      | BuiltinUniformNode u \<Rightarrow> [CInt u]
      | UniformNode name vt \<Rightarrow> [CInt (m_type n)]
      | _ \<Rightarrow> [])"

fun Node_load :: "Node \<Rightarrow> blob \<Rightarrow> error + Node \<times> blob" where
  "Node_load n b =
     (case m_class n of
        FloatConstNode v \<Rightarrow>
          andThen (read_float b) (\<lambda>(v', r). Inr (n\<lparr>m_class := FloatConstNode v'\<rparr>, r))
      | ColorConstNode _ _ _ _ \<Rightarrow>
          andThen (read_float b) (\<lambda>(c0, r0).
          andThen (read_float r0) (\<lambda>(c1, r1).
          andThen (read_float r1) (\<lambda>(c2, r2).
          andThen (read_float r2) (\<lambda>(c3, r3).
            Inr (n\<lparr>m_class := ColorConstNode c0 c1 c2 c3\<rparr>, r3)))))
      | SampleNode t \<Rightarrow>
          andThen (read_int b) (\<lambda>(t', r). Inr (n\<lparr>m_class := SampleNode t'\<rparr>, r))
      | VertexInputNode i \<Rightarrow>
          andThen (read_int b) (\<lambda>(i', r). Inr (n\<lparr>m_class := VertexInputNode i'\<rparr>, r))
      | FragmentInputNode a \<Rightarrow>
          andThen (read_int b) (\<lambda>(a', r). Inr (n\<lparr>m_class := FragmentInputNode a'\<rparr>, r))
      | BuiltinUniformNode u \<Rightarrow>
          andThen (read_int b) (\<lambda>(u', r). Inr (n\<lparr>m_class := BuiltinUniformNode u'\<rparr>, r))
      | UniformNode name vt \<Rightarrow>
          andThen (read_int b) (\<lambda>(t, r). Inr (n\<lparr>m_type := t\<rparr>, r))
      | _ \<Rightarrow> Inr (n, b))"

definition saveNode :: "ShaderEditor \<Rightarrow> blob \<Rightarrow> addr \<Rightarrow> error + blob" where
  "saveNode s b node =
     andThen (deref s node) (\<lambda>n.
       Inr (b @ [CInt (m_id n), CInt (m_type n), CFloat (fst (m_pos n)), CFloat (snd (m_pos n))]
              @ Node_save n))"

definition savePin :: "ShaderEditor \<Rightarrow> addr \<Rightarrow> bool \<Rightarrow> addr option \<Rightarrow> error + blob" where
  "savePin s node is_input peer =
     (case peer of
        None \<Rightarrow> Inr [CInt (- 1), CInt (- 1)]
      | Some q \<Rightarrow>
          andThen (deref s q) (\<lambda>qn.
            Inr [CInt (m_id qn),
                 CInt (indexOf (if is_input then m_outputs qn else m_inputs qn) (Some node))]))"

definition saveNodeConnections :: "ShaderEditor \<Rightarrow> blob \<Rightarrow> addr \<Rightarrow> error + blob" where
  "saveNodeConnections s b node =
     andThen (deref s node) (\<lambda>n.
     andThen (collect (m_inputs n) (savePin s node True)) (\<lambda>ins.
     andThen (collect (m_outputs n) (savePin s node False)) (\<lambda>outs.
       Inr (b @ [CInt (int (length (m_inputs n)))] @ ins
              @ [CInt (int (length (m_outputs n)))] @ outs))))"

definition loadNode ::
  "ShaderEditor \<Rightarrow> blob \<Rightarrow> ShaderType \<Rightarrow> error + addr \<times> blob \<times> ShaderEditor" where
  "loadNode s b shader_type =
     andThen (read_int b) (\<lambda>(id, b1).
     andThen (read_int b1) (\<lambda>(t, b2).
     andThen (createNode s t) (\<lambda>(node, s1).
     andThen (deref s1 node) (\<lambda>n.
       let s2 = pushNode (store s1 node (n\<lparr>m_id := id\<rparr>)) node shader_type in
       andThen (read_float b2) (\<lambda>(x, b3).
       andThen (read_float b3) (\<lambda>(y, b4).
       andThen (deref s2 node) (\<lambda>n2.
       andThen (Node_load (n2\<lparr>m_pos := (x, y)\<rparr>) b4) (\<lambda>(n3, b5).
         Inr (node, b5, store s2 node n3)))))))))"

definition loadInputPin ::
  "addr \<Rightarrow> int \<Rightarrow> blob \<times> ShaderEditor \<Rightarrow> error + blob \<times> ShaderEditor" where
  "loadInputPin node i bs =
     (case bs of (b, s) \<Rightarrow>
       andThen (read_int b) (\<lambda>(tmp, b1).
       andThen (if tmp < 0 then Inr None else getNodeByID s tmp) (\<lambda>peer.
       andThen (deref s node) (\<lambda>n.
       andThen (put (m_inputs n) i peer) (\<lambda>ins.
         let s1 = store s node (n\<lparr>m_inputs := ins\<rparr>) in
         andThen (read_int b1) (\<lambda>(tmp2, b2).
           case peer of
             None \<Rightarrow> Inr (b2, s1)
           | Some q \<Rightarrow>
               andThen (deref s1 q) (\<lambda>qn.
               andThen (put (m_outputs qn) tmp2 (Some node)) (\<lambda>outs.
                 Inr (b2, store s1 q (qn\<lparr>m_outputs := outs\<rparr>))))))))))"

definition loadOutputPin ::
  "addr \<Rightarrow> int \<Rightarrow> blob \<times> ShaderEditor \<Rightarrow> error + blob \<times> ShaderEditor" where
  "loadOutputPin node i bs =
     (case bs of (b, s) \<Rightarrow>
       andThen (read_int b) (\<lambda>(tmp, b1).
       andThen (if tmp < 0 then Inr None else getNodeByID s tmp) (\<lambda>peer.
       andThen (deref s node) (\<lambda>n.
       andThen (put (m_outputs n) i peer) (\<lambda>outs.
         let s1 = store s node (n\<lparr>m_outputs := outs\<rparr>) in
         andThen (read_int b1) (\<lambda>(tmp2, b2).
           case peer of
             None \<Rightarrow> Inr (b2, s1)
           | Some q \<Rightarrow>
               andThen (deref s1 q) (\<lambda>qn.
               andThen (put (m_inputs qn) tmp2 (Some node)) (\<lambda>ins.
                 Inr (b2, store s1 q (qn\<lparr>m_inputs := ins\<rparr>))))))))))"

text \<open>\<^verbatim>\<open>for(int i = 0; i < size; ++i)\<close>: \<open>k\<close> rounds are left, the next index is \<open>i\<close>.\<close>

fun countLoop :: "nat \<Rightarrow> int \<Rightarrow> (int \<Rightarrow> 's \<Rightarrow> error + 's) \<Rightarrow> 's \<Rightarrow> error + 's" where
  "countLoop 0 i f s = Inr s"
| "countLoop (Suc k) i f s =
     (case f i s of Inl e \<Rightarrow> Inl e | Inr s' \<Rightarrow> countLoop k (i + 1) f s')"

definition loadNodeConnections ::
  "ShaderEditor \<Rightarrow> blob \<Rightarrow> addr \<Rightarrow> error + blob \<times> ShaderEditor" where
  "loadNodeConnections s b node =
     andThen (read_int b) (\<lambda>(size, b1).
     andThen (countLoop (nat size) 0 (loadInputPin node) (b1, s)) (\<lambda>(b2, s1).
     andThen (read_int b2) (\<lambda>(size2, b3).
       countLoop (nat size2) 0 (loadOutputPin node) (b3, s1))))"

subsection \<open>The commands\<close>

definition setPos :: "ShaderEditor \<Rightarrow> int \<Rightarrow> ImVec2 \<Rightarrow> error + ShaderEditor" where
  "setPos s i pos =
     andThen (getNodeByID s i) (\<lambda>q.
     andThen (nonnull q) (\<lambda>node.
     andThen (deref s node) (\<lambda>n.
       Inr (store s node (n\<lparr>m_pos := pos\<rparr>)))))"

definition MoveNodeCommand_new :: "ShaderEditor \<Rightarrow> int \<Rightarrow> ImVec2 \<Rightarrow> error + MoveNodeCommand" where
  "MoveNodeCommand_new s node new_pos =
     andThen (getNodeByID s node) (\<lambda>q.
     andThen (nonnull q) (\<lambda>p.
     andThen (deref s p) (\<lambda>n.
       Inr \<lparr>mv_node = node, mv_new_pos = new_pos, mv_old_pos = m_pos n\<rparr>)))"

text \<open>
  The pin a peer holds for a node, and the peer's id; -1 and -1 for no peer.
\<close>

definition beforePeer :: "ShaderEditor \<Rightarrow> addr option \<Rightarrow> bool \<Rightarrow> addr \<Rightarrow> error + int \<times> int" where
  "beforePeer s peer in_inputs self =
     (case peer of
        None \<Rightarrow> Inr (- 1, - 1)
      | Some q \<Rightarrow>
          andThen (deref s q) (\<lambda>qn.
            Inr (m_id qn, indexOf (if in_inputs then m_inputs qn else m_outputs qn) (Some self))))"

text \<open>
  The constructor reads the input pin of the destination at \<open>m_from_pin\<close>, as the source
  has it: \<^verbatim>\<open>auto* before_from = to_node->m_inputs[m_from_pin];\<close>.
\<close>

definition CreateConnectionCommand_new ::
  "ShaderEditor \<Rightarrow> int \<Rightarrow> int \<Rightarrow> int \<Rightarrow> int \<Rightarrow> error + CreateConnectionCommand" where
  "CreateConnectionCommand_new s from from_pin to to_pin =
     andThen (getNodeByID s from) (\<lambda>from_node.
     andThen (getNodeByID s to) (\<lambda>to_node.
     andThen (nonnull from_node) (\<lambda>fp.
     andThen (deref s fp) (\<lambda>fn.
     andThen (at (m_outputs fn) from_pin) (\<lambda>before_to.
     andThen (beforePeer s before_to True fp) (\<lambda>(bt, bt_pin).
     andThen (nonnull to_node) (\<lambda>tp.
     andThen (deref s tp) (\<lambda>tn.
     andThen (at (m_inputs tn) from_pin) (\<lambda>before_from.
     andThen (beforePeer s before_from False tp) (\<lambda>(bf, bf_pin).
       Inr \<lparr>m_before_to = bt, m_before_to_pin = bt_pin,
            m_before_from = bf, m_before_from_pin = bf_pin,
            m_from_pin = from_pin, m_to_pin = to_pin,
            m_from = from, m_to = to\<rparr>))))))))))"

definition setOutput :: "ShaderEditor \<Rightarrow> addr \<Rightarrow> int \<Rightarrow> addr option \<Rightarrow> error + ShaderEditor" where
  "setOutput s node pin v =
     andThen (deref s node) (\<lambda>n.
     andThen (put (m_outputs n) pin v) (\<lambda>outs.
       Inr (store s node (n\<lparr>m_outputs := outs\<rparr>))))"

definition setInput :: "ShaderEditor \<Rightarrow> addr \<Rightarrow> int \<Rightarrow> addr option \<Rightarrow> error + ShaderEditor" where
  "setInput s node pin v =
     andThen (deref s node) (\<lambda>n.
     andThen (put (m_inputs n) pin v) (\<lambda>ins.
       Inr (store s node (n\<lparr>m_inputs := ins\<rparr>))))"

definition Connect_execute :: "ShaderEditor \<Rightarrow> CreateConnectionCommand \<Rightarrow> error + ShaderEditor" where
  "Connect_execute s c =
     andThen (getNodeByID s (m_from c)) (\<lambda>from_node.
     andThen (getNodeByID s (m_to c)) (\<lambda>to_node.
     andThen (nonnull from_node) (\<lambda>fp.
     andThen (removeConnection s fp (m_from_pin c) False) (\<lambda>s1.
     andThen (nonnull to_node) (\<lambda>tp.
     andThen (removeConnection s1 tp (m_to_pin c) True) (\<lambda>s2.
     andThen (setOutput s2 fp (m_from_pin c) (Some tp)) (\<lambda>s3.
       setInput s3 tp (m_to_pin c) (Some fp))))))))"

definition Connect_undo :: "ShaderEditor \<Rightarrow> CreateConnectionCommand \<Rightarrow> error + ShaderEditor" where
  "Connect_undo s c =
     andThen (getNodeByID s (m_from c)) (\<lambda>q.
     andThen (nonnull q) (\<lambda>node.
     andThen (removeConnection s node (m_from_pin c) False) (\<lambda>s1.
     andThen
       (if m_before_to c \<ge> 0 then
          andThen (getNodeByID s1 (m_before_to c)) (\<lambda>before_to.
          andThen (setOutput s1 node (m_from_pin c) before_to) (\<lambda>s'.
          andThen (nonnull before_to) (\<lambda>bp.
            setInput s' bp (m_before_to_pin c) (Some node))))
        else Inr s1) (\<lambda>s2.
       if m_before_from c \<ge> 0 then
         andThen (getNodeByID s2 (m_before_from c)) (\<lambda>before_from.
         andThen (getNodeByID s2 (m_to c)) (\<lambda>to_node.
         andThen (nonnull to_node) (\<lambda>tp.
         andThen (setInput s2 tp (m_to_pin c) before_from) (\<lambda>s'.
         andThen (nonnull before_from) (\<lambda>bp.
           setOutput s' bp (m_before_from_pin c) (Some tp))))))
       else Inr s2))))"

definition Remove_execute ::
  "ShaderEditor \<Rightarrow> RemoveNodeCommand \<Rightarrow> error + ShaderEditor \<times> RemoveNodeCommand" where
  "Remove_execute s c =
     andThen (getNodeByID s (rm_node_id c)) (\<lambda>q.
     andThen (nonnull q) (\<lambda>node.
     andThen (saveNode s (rm_blob c) node) (\<lambda>b1.
     andThen (saveNodeConnections s b1 node) (\<lambda>b2.
     andThen (destroyNode s node) (\<lambda>s'.
       Inr (s', c\<lparr>rm_blob := b2\<rparr>))))))"

definition Remove_undo ::
  "ShaderEditor \<Rightarrow> RemoveNodeCommand \<Rightarrow> error + ShaderEditor \<times> RemoveNodeCommand" where
  "Remove_undo s c =
     andThen (loadNode s (rm_blob c) (rm_shader_type c)) (\<lambda>(node, b1, s1).
     andThen (loadNodeConnections s1 b1 node) (\<lambda>(b2, s2).
       Inr (s2, c)))"

definition setId :: "ShaderEditor \<Rightarrow> addr \<Rightarrow> int \<Rightarrow> error + ShaderEditor" where
  "setId s node i = andThen (deref s node) (\<lambda>n. Inr (store s node (n\<lparr>m_id := i\<rparr>)))"

definition Create_execute ::
  "ShaderEditor \<Rightarrow> CreateNodeCommand \<Rightarrow> error + ShaderEditor \<times> CreateNodeCommand" where
  "Create_execute s c =
     andThen (createNode s (nodeTypeInt (cn_type c))) (\<lambda>(node, s1).
     andThen (addNode s1 node (cn_pos c) (cn_shader_type c)) (\<lambda>s2.
     andThen (if cn_id c \<ge> 0 then setId s2 node (cn_id c) else Inr s2) (\<lambda>s3.
       Inr (s3, c\<lparr>cn_node := Some node\<rparr>))))"

definition Create_undo ::
  "ShaderEditor \<Rightarrow> CreateNodeCommand \<Rightarrow> error + ShaderEditor \<times> CreateNodeCommand" where
  "Create_undo s c =
     andThen (nonnull (cn_node c)) (\<lambda>node.
     andThen (deref s node) (\<lambda>n.
     andThen (destroyNode s node) (\<lambda>s'.
       Inr (s', c\<lparr>cn_id := m_id n\<rparr>))))"

fun cmd_execute :: "ShaderEditor \<Rightarrow> ICommand \<Rightarrow> error + ShaderEditor \<times> ICommand" where
  "cmd_execute s (Move c) =
     andThen (setPos s (mv_node c) (mv_new_pos c)) (\<lambda>s'. Inr (s', Move c))"
| "cmd_execute s (Connect c) = andThen (Connect_execute s c) (\<lambda>s'. Inr (s', Connect c))"
| "cmd_execute s (Remove c) = andThen (Remove_execute s c) (\<lambda>(s', c'). Inr (s', Remove c'))"
| "cmd_execute s (Create c) = andThen (Create_execute s c) (\<lambda>(s', c'). Inr (s', Create c'))"

fun cmd_undo :: "ShaderEditor \<Rightarrow> ICommand \<Rightarrow> error + ShaderEditor \<times> ICommand" where
  "cmd_undo s (Move c) =
     andThen (setPos s (mv_node c) (mv_old_pos c)) (\<lambda>s'. Inr (s', Move c))"
| "cmd_undo s (Connect c) = andThen (Connect_undo s c) (\<lambda>s'. Inr (s', Connect c))"
| "cmd_undo s (Remove c) = andThen (Remove_undo s c) (\<lambda>(s', c'). Inr (s', Remove c'))"
| "cmd_undo s (Create c) = andThen (Create_undo s c) (\<lambda>(s', c'). Inr (s', Create c'))"

text \<open>
  \<^verbatim>\<open>MoveNodeCommand::merge\<close> casts its argument to \<^verbatim>\<open>MoveNodeCommand&\<close> without looking at
  its class. \<open>castToMove u command\<close> is what it then reads as \<^verbatim>\<open>cmd.m_node\<close> and
  \<^verbatim>\<open>cmd.m_new_pos\<close>. The members of a command follow those of \<^verbatim>\<open>ICommand\<close> in the order
  of their declaration, so that \<^verbatim>\<open>m_node\<close> is the first member that the class of the
  object declares, whatever that class is, and \<^verbatim>\<open>m_new_pos\<close> the eight bytes after it:
  \<^verbatim>\<open>m_before_to_pin\<close> and \<^verbatim>\<open>m_before_from\<close> of a connection command, read as floats;
  the shader type of a create command and half of its \<^verbatim>\<open>m_node\<close>, which no one has written
  before the command runs; the padding after the shader type of a remove command and the
  first bytes of its \<^verbatim>\<open>m_blob\<close>, whose class is not among the sources. The bytes that the
  sources do not determine are \<open>u\<close>.
\<close>

fun castToMove :: "float \<Rightarrow> ICommand \<Rightarrow> int \<times> ImVec2" where
  "castToMove u (Move c) = (mv_node c, mv_new_pos c)"
| "castToMove u (Connect c) =
     (m_before_to c, (word_of_int (m_before_to_pin c), word_of_int (m_before_from c)))"
| "castToMove u (Remove c) = (shaderTypeInt (rm_shader_type c), (u, u))"
| "castToMove u (Create c) = (cn_id c, (word_of_int (shaderTypeInt (cn_shader_type c)), u))"

text \<open>
  \<open>cmd_merge u top command\<close> is \<^verbatim>\<open>top->merge(*command)\<close>: whether it merged, and the top
  command afterwards. The classes other than \<^verbatim>\<open>MoveNodeCommand\<close> inherit
  \<^verbatim>\<open>ICommand::merge\<close>.
\<close>

fun cmd_merge :: "float \<Rightarrow> ICommand \<Rightarrow> ICommand \<Rightarrow> error + bool \<times> ICommand" where
  "cmd_merge u (Move m) command =
     (case castToMove u command of
        (node, new_pos) \<Rightarrow>
          if node = mv_node m then Inr (True, Move (m\<lparr>mv_new_pos := new_pos\<rparr>))
          else Inr (False, Move m))"
| "cmd_merge u (Connect c) command = Inr (False, Connect c)"
| "cmd_merge u (Remove c) command = Inr (False, Remove c)"
| "cmd_merge u (Create c) command = Inr (False, Create c)"

subsection \<open>The undo stack\<close>

definition setCommand :: "ShaderEditor \<Rightarrow> nat \<Rightarrow> ICommand \<Rightarrow> ShaderEditor" where
  "setCommand s i c = s\<lparr>m_undo_stack := (m_undo_stack s)[i := c]\<rparr>"

definition pushExecute :: "ShaderEditor \<Rightarrow> ICommand \<Rightarrow> error + ShaderEditor" where
  "pushExecute s command =
     (let k = length (m_undo_stack s);
          s1 = s\<lparr>m_undo_stack_idx := int k, m_undo_stack := m_undo_stack s @ [command]\<rparr>
      in andThen (cmd_execute s1 command) (\<lambda>(s2, c'). Inr (setCommand s2 k c')))"

definition execute :: "ShaderEditor \<Rightarrow> ICommand \<Rightarrow> error + ShaderEditor" where
  "execute s command =
     (let s0 = s\<lparr>m_undo_stack := take (nat (m_undo_stack_idx s + 1)) (m_undo_stack s)\<rparr> in
      if m_undo_stack_idx s0 \<ge> 0 then
        andThen (at (m_undo_stack s0) (m_undo_stack_idx s0)) (\<lambda>top_cmd.
        andThen (cmd_merge (uninit s) top_cmd command) (\<lambda>(merged, top').
          if merged then
            andThen (cmd_execute (setCommand s0 (nat (m_undo_stack_idx s0)) top') top')
              (\<lambda>(s2, c'). Inr (setCommand s2 (nat (m_undo_stack_idx s0)) c'))
          else pushExecute s0 command))
      else pushExecute s0 command)"

definition undo :: "ShaderEditor \<Rightarrow> error + ShaderEditor" where
  "undo s =
     (if m_undo_stack_idx s < 0 then Inr s
      else
        andThen (at (m_undo_stack s) (m_undo_stack_idx s)) (\<lambda>c.
        andThen (cmd_undo s c) (\<lambda>(s1, c').
          Inr ((setCommand s1 (nat (m_undo_stack_idx s)) c')
                 \<lparr>m_undo_stack_idx := m_undo_stack_idx s - 1\<rparr>))))"

definition redo :: "ShaderEditor \<Rightarrow> error + ShaderEditor" where
  "redo s =
     (if m_undo_stack_idx s + 1 \<ge> int (length (m_undo_stack s)) then Inr s
      else
        andThen (at (m_undo_stack s) (m_undo_stack_idx s + 1)) (\<lambda>c.
        andThen (cmd_execute s c) (\<lambda>(s1, c').
          Inr ((setCommand s1 (nat (m_undo_stack_idx s + 1)) c')
                 \<lparr>m_undo_stack_idx := m_undo_stack_idx s + 1\<rparr>))))"

subsection \<open>clear and newGraph\<close>

definition clear :: "ShaderEditor \<Rightarrow> error + ShaderEditor" where
  "clear s =
     andThen (forEach (m_fragment_nodes s) deleteNode s) (\<lambda>s1.
     andThen (forEach (m_vertex_nodes s1) deleteNode (s1\<lparr>m_fragment_nodes := []\<rparr>)) (\<lambda>s2.
       Inr (s2\<lparr>m_vertex_nodes := [], m_undo_stack := [], m_undo_stack_idx := - 1,
               m_last_node_id := 0\<rparr>)))"

text \<open>The float 50.0f.\<close>

definition float_50 :: float where
  "float_50 = 0x42480000"

definition newTerminal :: "ShaderEditor \<Rightarrow> NodeType \<Rightarrow> ShaderType \<Rightarrow> error + ShaderEditor" where
  "newTerminal s k t =
     (case alloc s (newNode k) of (node, s1) \<Rightarrow>
        let s2 = pushNode s1 node t in
        andThen (deref s2 node) (\<lambda>n.
          if m_last_node_id s2 = INT_MAX then
            Inr (store (s2\<lparr>m_last_node_id := INT_MIN\<rparr>) node
                   (n\<lparr>m_pos := (float_50, float_50), m_id := INT_MIN\<rparr>))
          else
            let l = m_last_node_id s2 + 1 in
            Inr (store (s2\<lparr>m_last_node_id := l\<rparr>) node
                   (n\<lparr>m_pos := (float_50, float_50), m_id := l\<rparr>))))"

definition newGraph :: "ShaderEditor \<Rightarrow> error + ShaderEditor" where
  "newGraph s =
     andThen (clear s) (\<lambda>s1.
       let s2 = s1\<lparr>m_textures := map (\<lambda>_. []) (m_textures s1),
                   m_vertex_inputs := map (\<lambda>_. False) (m_vertex_inputs s1),
                   m_vertex_outputs := map (\<lambda>_. []) (m_vertex_outputs s1),
                   m_last_node_id := 0\<rparr> in
       andThen (newTerminal s2 FRAGMENT_OUTPUT FRAGMENT) (\<lambda>s3.
         newTerminal s3 POSITION_OUTPUT VERTEX))"

text \<open>
  The constructor: empty collections, then \<^verbatim>\<open>newGraph()\<close>. The sizes of the texture and
  vertex output arrays are constants of shader\_editor.h, which is not among the sources;
  they are parameters here, with the content \<open>u\<close> of unwritten memory.
  \<^verbatim>\<open>VertexInput::COUNT\<close> is 9, the length of \<^verbatim>\<open>VERTEX_INPUTS\<close>.
\<close>

definition ShaderEditor_new :: "nat \<Rightarrow> nat \<Rightarrow> float \<Rightarrow> error + ShaderEditor" where
  "ShaderEditor_new max_textures max_vertex_outputs u =
     newGraph \<lparr>heap = (\<lambda>_. None), next_addr = 0, m_fragment_nodes = [], m_vertex_nodes = [],
               m_undo_stack = [], m_undo_stack_idx = - 1, m_last_node_id = 0,
               m_textures = replicate max_textures [],
               m_vertex_outputs = replicate max_vertex_outputs [],
               m_vertex_inputs = replicate 9 False, uninit = u\<rparr>"

subsection \<open>The operations of the user interface\<close>

text \<open>
  What \<^verbatim>\<open>onGUIRightColumn\<close>, \<^verbatim>\<open>createConnection\<close> and \<^verbatim>\<open>onGUIMenu\<close> do to the graph:
  each builds a command from the current state and passes it to \<^verbatim>\<open>execute\<close>, or calls
  \<^verbatim>\<open>undo\<close> or \<^verbatim>\<open>redo\<close>.
\<close>

datatype op =
    OpCreateNode NodeType ShaderType ImVec2
  | OpConnect int int int int
  | OpMove int ImVec2
  | OpRemove int ShaderType
  | OpUndo
  | OpRedo

fun step :: "ShaderEditor \<Rightarrow> op \<Rightarrow> error + ShaderEditor" where
  "step s (OpCreateNode k t pos) =
     execute s (Create \<lparr>cn_id = - 1, cn_shader_type = t, cn_node = None, cn_type = k, cn_pos = pos\<rparr>)"
| "step s (OpConnect from from_pin to to_pin) =
     andThen (CreateConnectionCommand_new s from from_pin to to_pin) (\<lambda>c. execute s (Connect c))"
| "step s (OpMove node pos) =
     andThen (MoveNodeCommand_new s node pos) (\<lambda>c. execute s (Move c))"
| "step s (OpRemove node t) =
     execute s (Remove \<lparr>rm_shader_type = t, rm_blob = [], rm_node_id = node\<rparr>)"
| "step s OpUndo = undo s"
| "step s OpRedo = redo s"

fun run :: "ShaderEditor \<Rightarrow> op list \<Rightarrow> error + ShaderEditor" where
  "run s [] = Inr s"
| "run s (x # xs) = (case step s x of Inl e \<Rightarrow> Inl e | Inr s' \<Rightarrow> run s' xs)"

subsection \<open>Code generation\<close>

text \<open>
  A text \<^verbatim>\<open>OutputBlob\<close> is the sequence of the operands of \<^verbatim>\<open><<\<close>: a string, an
  \<^verbatim>\<open>int\<close> or a \<^verbatim>\<open>float\<close>. How core/blob.h prints a number is not among the sources.
\<close>

datatype piece = Str string | Num int | Flt float

definition TAB :: string where
  "TAB = [CHR 0x09]"

definition NL :: string where
  "NL = [CHR 0x0A]"

definition QUOTE :: string where
  "QUOTE = [CHR 0x22]"

definition VERTEX_INPUTS :: "(int \<times> string \<times> string \<times> ValueType) list" where
  "VERTEX_INPUTS =
     [(0, ''Position'', ''a_position'', VEC4),
      (1, ''Normal'', ''a_normal'', VEC3),
      (2, ''Color'', ''a_color'', VEC4),
      (3, ''Tangent'', ''a_tangent'', VEC3),
      (4, ''Texture coord 0'', ''a_texcoord0'', VEC4),
      (5, ''Instance data 0'', ''i_data0'', VEC4),
      (6, ''Instance data 1'', ''i_data1'', VEC4),
      (7, ''Instance data 2'', ''i_data2'', VEC4),
      (8, ''Instance data 3'', ''i_data3'', VEC4)]"

definition BUILTIN_UNIFORMS :: "(int \<times> string \<times> ValueType) list" where
  "BUILTIN_UNIFORMS = [(0, ''u_model[0]'', MATRIX4), (1, ''u_viewProj'', MATRIX4)]"

fun getValueTypeName :: "ValueType \<Rightarrow> error + string" where
  "getValueTypeName FLOAT = Inr ''float''"
| "getValueTypeName VEC2 = Inr ''vec2''"
| "getValueTypeName VEC3 = Inr ''vec3''"
| "getValueTypeName VEC4 = Inr ''vec4''"
| "getValueTypeName MATRIX3 = Inr ''mat3''"
| "getValueTypeName MATRIX4 = Inr ''mat4''"
| "getValueTypeName NONE = Inl AssertFailed"

definition getVertexInputBGFXName :: "int \<Rightarrow> error + string" where
  "getVertexInputBGFXName input =
     (case find (\<lambda>tmp. fst tmp = input) VERTEX_INPUTS of
        Some tmp \<Rightarrow> Inr (fst (snd (snd tmp)))
      | None \<Rightarrow> Inl AssertFailed)"

text \<open>
  Modelled from the spec: \<^verbatim>\<open>getTextureName\<close> and \<^verbatim>\<open>getVertexOutputName\<close> of
  shader\_editor.h (not among the sources) return the name configured for a slot; a slot
  outside the array is an error.
\<close>

definition getTextureName :: "ShaderEditor \<Rightarrow> int \<Rightarrow> error + string" where
  "getTextureName s i = at (m_textures s) i"

definition getVertexOutputName :: "ShaderEditor \<Rightarrow> int \<Rightarrow> error + string" where
  "getVertexOutputName s i = at (m_vertex_outputs s) i"

definition printReference :: "ShaderEditor \<Rightarrow> addr \<Rightarrow> error + piece list" where
  "printReference s node =
     andThen (deref s node) (\<lambda>n.
       case m_class n of
         FloatConstNode v \<Rightarrow> Inr [Flt v]
       | VertexInputNode i \<Rightarrow>
           (case find (\<lambda>x. fst x = i) VERTEX_INPUTS of
              Some x \<Rightarrow> Inr [Str (fst (snd (snd x)))]
            | None \<Rightarrow> Inr [])
       | FragmentInputNode a \<Rightarrow>
           andThen (getVertexOutputName s a) (\<lambda>name. Inr [Str name])
       | BuiltinUniformNode u \<Rightarrow>
           (case find (\<lambda>x. fst x = u) BUILTIN_UNIFORMS of
              Some x \<Rightarrow> Inr [Str (fst (snd x))]
            | None \<Rightarrow> Inr [])
       | UniformNode name vt \<Rightarrow> Inr [Str name]
       | _ \<Rightarrow> Inr [Str ''v'', Num (m_id n)])"

text \<open>
  \<^verbatim>\<open>Node::getInputType\<close>, given \<^verbatim>\<open>getOutputType\<close> of the peer. Every
  \<^verbatim>\<open>getOutputType\<close> of the source ignores its index argument.
\<close>

definition getInputTypeWith ::
  "(addr \<Rightarrow> error + ValueType) \<Rightarrow> ShaderEditor \<Rightarrow> addr \<Rightarrow> int \<Rightarrow> error + ValueType" where
  "getInputTypeWith out s node index =
     andThen (deref s node) (\<lambda>n.
     andThen (at (m_inputs n) index) (\<lambda>i.
       case i of None \<Rightarrow> Inr NONE | Some q \<Rightarrow> out q))"

text \<open>
  Modelled from the spec: \<^verbatim>\<open>Node::getOutputType\<close> of the base class (shader\_editor.h, not
  among the sources), which the classes without an override inherit: "defaulting to
  none or a fixed type, never erroring"; the fixed type float here.

  The recursion follows the input pointers and need not end on a graph with a cycle:
  \<open>fuel\<close> bounds its depth and \<open>OutOfFuel\<close> is the overflowing stack.
\<close>

fun getOutputType :: "nat \<Rightarrow> ShaderEditor \<Rightarrow> addr \<Rightarrow> error + ValueType" where
  "getOutputType 0 s node = Inl OutOfFuel"
| "getOutputType (Suc fuel) s node =
     andThen (deref s node) (\<lambda>n.
       case m_class n of
         MultiplyNode \<Rightarrow>
           andThen (at (m_inputs n) 1) (\<lambda>i.
             case i of
               None \<Rightarrow> Inr NONE
             | Some _ \<Rightarrow> getInputTypeWith (getOutputType fuel s) s node 1)
       | Vec4MergeNode \<Rightarrow> Inr VEC4
       | FloatConstNode _ \<Rightarrow> Inr FLOAT
       | ColorConstNode _ _ _ _ \<Rightarrow> Inr VEC4
       | SampleNode _ \<Rightarrow> Inr VEC4
       | VertexInputNode i \<Rightarrow>
           (case find (\<lambda>x. fst x = i) VERTEX_INPUTS of
              Some x \<Rightarrow> Inr (snd (snd (snd x)))
            | None \<Rightarrow> Inr FLOAT)
       | MixNode \<Rightarrow> getInputTypeWith (getOutputType fuel s) s node 1
       | BuiltinUniformNode u \<Rightarrow>
           (case find (\<lambda>x. fst x = u) BUILTIN_UNIFORMS of
              Some x \<Rightarrow> Inr (snd (snd x))
            | None \<Rightarrow> Inr NONE)
       | UniformNode name vt \<Rightarrow> Inr vt
       | _ \<Rightarrow> Inr FLOAT)"

definition getInputType :: "nat \<Rightarrow> ShaderEditor \<Rightarrow> addr \<Rightarrow> int \<Rightarrow> error + ValueType" where
  "getInputType fuel s node index = getInputTypeWith (getOutputType fuel s) s node index"

text \<open>
  One \<^verbatim>\<open>if (m_inputs[k]) { ... }\<close> block of \<^verbatim>\<open>Vec4MergeNode::generate\<close>, given
  \<^verbatim>\<open>generate\<close> of the peer.
\<close>

definition mergeInput ::
  "(addr \<Rightarrow> error + piece list) \<Rightarrow> ShaderEditor \<Rightarrow> Node \<Rightarrow> int \<Rightarrow> string \<Rightarrow> error + piece list" where
  "mergeInput gen s n k swizzle =
     andThen (at (m_inputs n) k) (\<lambda>i.
       case i of
         None \<Rightarrow> Inr []
       | Some q \<Rightarrow>
           andThen (gen q) (\<lambda>g.
           andThen (printReference s q) (\<lambda>r.
             Inr (g @ [Str (TAB @ ''v''), Num (m_id n), Str swizzle] @ r @ [Str ('';'' @ NL)]))))"

text \<open>
  A terminal node: the fallback when its input is not connected, else the input's code
  and an assignment of the input's reference.
\<close>

definition terminalGenerate ::
  "(addr \<Rightarrow> error + piece list) \<Rightarrow> ShaderEditor \<Rightarrow> Node \<Rightarrow> piece list \<Rightarrow> piece list \<Rightarrow>
   error + piece list" where
  "terminalGenerate gen s n fallback assign =
     andThen (at (m_inputs n) 0) (\<lambda>i.
       case i of
         None \<Rightarrow> Inr fallback
       | Some q \<Rightarrow>
           andThen (gen q) (\<lambda>g.
           andThen (printReference s q) (\<lambda>r.
             Inr (g @ assign @ r @ [Str ('';'' @ NL)]))))"

fun Node_generate :: "nat \<Rightarrow> ShaderEditor \<Rightarrow> addr \<Rightarrow> error + piece list" where
  "Node_generate 0 s node = Inl OutOfFuel"
| "Node_generate (Suc fuel) s node =
     andThen (deref s node) (\<lambda>n.
       case m_class n of
         MultiplyNode \<Rightarrow>
           andThen (at (m_inputs n) 0) (\<lambda>i0.
             case i0 of
               None \<Rightarrow> Inr []
             | Some q0 \<Rightarrow>
                 andThen (at (m_inputs n) 1) (\<lambda>i1.
                   case i1 of
                     None \<Rightarrow> Inr []
                   | Some q1 \<Rightarrow>
                       andThen (Node_generate fuel s q0) (\<lambda>g0.
                       andThen (Node_generate fuel s q1) (\<lambda>g1.
                       andThen (getInputType fuel s node 0) (\<lambda>input0_type.
                         let is_matrix = (input0_type = MATRIX3 \<or> input0_type = MATRIX4) in
                         andThen (getInputType fuel s node 1) (\<lambda>t1.
                         andThen (getValueTypeName t1) (\<lambda>name.
                         andThen (printReference s q0) (\<lambda>r0.
                         andThen (printReference s q1) (\<lambda>r1.
                           Inr (g0 @ g1
                                @ [Str TAB, Str name, Str '' v'', Num (m_id n), Str '' = '']
                                @ (if is_matrix then [Str ''mul(''] else [])
                                @ r0
                                @ [Str (if is_matrix then '', '' else '' * '')]
                                @ r1
                                @ [Str (if is_matrix then '');'' @ NL else '';'' @ NL)]))))))))))
       | Vec4MergeNode \<Rightarrow>
           andThen (mergeInput (Node_generate fuel s) s n 0 ''.xyz = '') (\<lambda>p0.
           andThen (mergeInput (Node_generate fuel s) s n 1 ''.x = '') (\<lambda>p1.
           andThen (mergeInput (Node_generate fuel s) s n 2 ''.y = '') (\<lambda>p2.
           andThen (mergeInput (Node_generate fuel s) s n 3 ''.z = '') (\<lambda>p3.
           andThen (mergeInput (Node_generate fuel s) s n 4 ''.w = '') (\<lambda>p4.
             Inr ([Str (TAB @ ''vec4 v''), Num (m_id n), Str ('';'' @ NL)]
                  @ p0 @ p1 @ p2 @ p3 @ p4))))))
       | FloatConstNode _ \<Rightarrow> Inr []
       | ColorConstNode c0 c1 c2 c3 \<Rightarrow>
           Inr [Str (TAB @ ''const vec4 v''), Num (m_id n), Str '' = vec4('', Flt c0, Str '', '',
                Flt c1, Str '', '', Flt c2, Str '', '', Flt c3, Str ('');'' @ NL)]
       | SampleNode texture \<Rightarrow>
           andThen (at (m_inputs n) 0) (\<lambda>i.
             case i of
               None \<Rightarrow>
                 Inr [Str (TAB @ ''vec4 v''), Num (m_id n), Str ('' = vec4(1, 0, 1, 0);'' @ NL)]
             | Some q \<Rightarrow>
                 andThen (Node_generate fuel s q) (\<lambda>g.
                 andThen (getTextureName s texture) (\<lambda>name.
                 andThen (printReference s q) (\<lambda>r.
                   Inr (g @ [Str (TAB @ ''vec4 v''), Num (m_id n), Str '' = texture2D('',
                             Str name, Str '', '']
                          @ r @ [Str ('');'' @ NL)])))))
       | VertexInputNode _ \<Rightarrow> Inr []
       | FragmentInputNode _ \<Rightarrow> Inr []
       | VertexOutputNode idx \<Rightarrow>
           andThen (at (m_inputs n) 0) (\<lambda>i.
             case i of
               None \<Rightarrow>
                 andThen (getVertexOutputName s idx) (\<lambda>name.
                   Inr [Str TAB, Str name, Str '' = vec4(1.0, 0.0, 1.0, 0.0);''])
             | Some q \<Rightarrow>
                 andThen (Node_generate fuel s q) (\<lambda>g.
                 andThen (getVertexOutputName s idx) (\<lambda>name.
                 andThen (printReference s q) (\<lambda>r.
                   Inr (g @ [Str TAB, Str name, Str '' = ''] @ r @ [Str ('';'' @ NL)])))))
       | PositionOutputNode \<Rightarrow>
           terminalGenerate (Node_generate fuel s) s n
             [Str (TAB @ ''gl_Position = vec4(1, 0, 1, 1);'' @ NL)]
             [Str (TAB @ ''gl_Position = '')]
       | FragmentOutputNode \<Rightarrow>
           terminalGenerate (Node_generate fuel s) s n
             [Str (TAB @ ''gl_FragColor = vec4(1, 0, 1, 1);'' @ NL)]
             [Str (TAB @ ''gl_FragColor = '')]
       | MixNode \<Rightarrow>
           andThen (at (m_inputs n) 0) (\<lambda>i0.
           andThen (at (m_inputs n) 1) (\<lambda>i1.
           andThen (at (m_inputs n) 2) (\<lambda>i2.
             case (i0, i1, i2) of
               (Some q0, Some q1, Some q2) \<Rightarrow>
                 andThen (Node_generate fuel s q0) (\<lambda>g0.
                 andThen (Node_generate fuel s q1) (\<lambda>g1.
                 andThen (Node_generate fuel s q2) (\<lambda>g2.
                 andThen (getOutputType fuel s node) (\<lambda>t.
                 andThen (getValueTypeName t) (\<lambda>name.
                 andThen (printReference s q0) (\<lambda>r0.
                 andThen (printReference s q1) (\<lambda>r1.
                 andThen (printReference s q2) (\<lambda>r2.
                   Inr (g0 @ g1 @ g2
                        @ [Str TAB, Str name, Str '' v'', Num (m_id n), Str '' = mix('']
                        @ r0 @ [Str '', ''] @ r1 @ [Str '', ''] @ r2 @ [Str '');''])))))))))
             | _ \<Rightarrow>
                 andThen (getOutputType fuel s node) (\<lambda>t.
                 andThen (getValueTypeName t) (\<lambda>name.
                   Inr [Str TAB, Str name, Str '' v'', Num (m_id n), Str ('';'' @ NL)])))))
       | BuiltinUniformNode _ \<Rightarrow> Inr []
       | UniformNode _ _ \<Rightarrow> Inr [])"

text \<open>
  Modelled from the spec: \<^verbatim>\<open>Node::generateBeforeMain\<close> of the base class (not among the
  sources) writes nothing: "only uniform- and builtin-uniform-like kinds use this".
\<close>

definition generateBeforeMain :: "ShaderEditor \<Rightarrow> addr \<Rightarrow> error + piece list" where
  "generateBeforeMain s node =
     andThen (deref s node) (\<lambda>n.
       case m_class n of
         UniformNode name vt \<Rightarrow>
           andThen (getValueTypeName vt) (\<lambda>t.
             Inr [Str ''uniform '', Str t, Str '' '', Str name, Str ('';'' @ NL)])
       | _ \<Rightarrow> Inr [])"

text \<open>The names that are not empty, with \<^verbatim>\<open>", "\<close> before each but the first.\<close>

fun nameList :: "string list \<Rightarrow> bool \<Rightarrow> piece list" where
  "nameList [] first = []"
| "nameList (x # xs) first =
     (if x = [] then nameList xs first
      else (if first then [] else [Str '', '']) @ [Str x] @ nameList xs False)"

fun inputList :: "bool list \<Rightarrow> int \<Rightarrow> bool \<Rightarrow> error + piece list" where
  "inputList [] i first = Inr []"
| "inputList (x # xs) i first =
     (if \<not> x then inputList xs (i + 1) first
      else
        andThen (getVertexInputBGFXName i) (\<lambda>name.
        andThen (inputList xs (i + 1) False) (\<lambda>r.
          Inr ((if first then [] else [Str '', '']) @ [Str name] @ r))))"

definition writeVertexShaderHeader :: "bool list \<Rightarrow> string list \<Rightarrow> error + piece list" where
  "writeVertexShaderHeader inputs outputs =
     andThen (inputList inputs 0 True) (\<lambda>ins.
       Inr ([Str ''$input ''] @ ins @ [Str NL] @ [Str ''$output ''] @ nameList outputs True
            @ [Str NL]))"

fun samplers :: "string list \<Rightarrow> int \<Rightarrow> piece list" where
  "samplers [] i = []"
| "samplers (x # xs) i =
     (if x = [] then samplers xs (i + 1)
      else [Str ''SAMPLER2D('', Str x, Str '', '', Num i, Str ('');'' @ NL)] @ samplers xs (i + 1))"

definition isTerminal :: "Node \<Rightarrow> bool" where
  "isTerminal n \<longleftrightarrow>
     m_type n = nodeTypeInt FRAGMENT_OUTPUT \<or> m_type n = nodeTypeInt VERTEX_OUTPUT
     \<or> m_type n = nodeTypeInt POSITION_OUTPUT"

definition generateTerminal :: "nat \<Rightarrow> ShaderEditor \<Rightarrow> addr \<Rightarrow> error + piece list" where
  "generateTerminal fuel s node =
     andThen (deref s node) (\<lambda>n. if isTerminal n then Node_generate fuel s node else Inr [])"

text \<open>The text \<^verbatim>\<open>ShaderEditor::generate\<close> builds in its blob.\<close>

definition generate_text :: "nat \<Rightarrow> ShaderEditor \<Rightarrow> ShaderType \<Rightarrow> error + piece list" where
  "generate_text fuel s shader_type =
     andThen
       (if shader_type = FRAGMENT
        then Inr ([Str ''$input ''] @ nameList (m_vertex_outputs s) True @ [Str NL])
        else writeVertexShaderHeader (m_vertex_inputs s) (m_vertex_outputs s)) (\<lambda>header.
       let nodes = (if shader_type = FRAGMENT then m_fragment_nodes s else m_vertex_nodes s) in
       andThen (collect nodes (generateBeforeMain s)) (\<lambda>before_main.
       andThen (collect nodes (generateTerminal fuel s)) (\<lambda>body.
         Inr (header
              @ [Str (''#include '' @ QUOTE @ ''common.sh'' @ QUOTE @ NL)]
              @ samplers (m_textures s) 0
              @ before_main
              @ [Str (''void main() {'' @ NL)]
              @ body
              @ [Str (''}'' @ NL)]))))"

subsection \<open>Files\<close>

text \<open>
  What an operation does to the outside, in order, the error that ended it, if any, and
  the editor it leaves. Whether \<^verbatim>\<open>fopen\<close> succeeds is an input of the model. The
  directory and base name that \<^verbatim>\<open>PathUtils::FileInfo\<close> (not among the sources) takes from
  the path are passed joined, as \<open>base\<close>.
\<close>

datatype event =
    Opened string
  | WroteText "piece list"
  | WroteBlob blob
  | Closed
  | Logged string string




subsection \<open>save and load\<close>

definition saveNodes :: "ShaderEditor \<Rightarrow> addr list \<Rightarrow> error + blob" where
  "saveNodes s nodes =
     andThen (collect nodes (saveNode s [])) (\<lambda>a.
     andThen (collect nodes (saveNodeConnections s [])) (\<lambda>b.
       Inr ([CInt (int (length nodes))] @ a @ b)))"

definition save_blob :: "ShaderEditor \<Rightarrow> error + blob" where
  "save_blob s =
     andThen (saveNodes s (m_vertex_nodes s)) (\<lambda>v.
     andThen (saveNodes s (m_fragment_nodes s)) (\<lambda>f.
       Inr (map CString (m_textures s) @ map CString (m_vertex_outputs s)
            @ [CBools (m_vertex_inputs s)] @ v @ f)))"


fun read_strings :: "nat \<Rightarrow> blob \<Rightarrow> error + string list \<times> blob" where
  "read_strings 0 b = Inr ([], b)"
| "read_strings (Suc k) b =
     andThen (read_string b) (\<lambda>(x, b1).
     andThen (read_strings k b1) (\<lambda>(xs, b2). Inr (x # xs, b2)))"

definition loadOneNode ::
  "ShaderType \<Rightarrow> int \<Rightarrow> blob \<times> ShaderEditor \<Rightarrow> error + blob \<times> ShaderEditor" where
  "loadOneNode t i bs =
     (case bs of (b, s) \<Rightarrow> andThen (loadNode s b t) (\<lambda>(node, b', s'). Inr (b', s')))"

text \<open>
  One round of the loop after the nodes of a stage are read: the connections of the node,
  then \<^verbatim>\<open>m_last_node_id = maxValue(int(node->m_id + 1), int(m_last_node_id))\<close>, where the sum
  wraps as in \<^verbatim>\<open>addNode\<close>.
\<close>

definition loadConnectionsOf ::
  "blob \<times> ShaderEditor \<Rightarrow> addr \<Rightarrow> error + blob \<times> ShaderEditor" where
  "loadConnectionsOf bs node =
     (case bs of (b, s) \<Rightarrow>
       andThen (loadNodeConnections s b node) (\<lambda>(b', s').
       andThen (deref s' node) (\<lambda>n.
         if m_id n = INT_MAX then
           Inr (b', s'\<lparr>m_last_node_id := max INT_MIN (m_last_node_id s')\<rparr>)
         else Inr (b', s'\<lparr>m_last_node_id := max (m_id n + 1) (m_last_node_id s')\<rparr>))))"

definition loadNodes ::
  "ShaderType \<Rightarrow> blob \<times> ShaderEditor \<Rightarrow> error + blob \<times> ShaderEditor" where
  "loadNodes t bs =
     andThen (read_int (fst bs)) (\<lambda>(size, b1).
     andThen (countLoop (nat size) 0 (loadOneNode t) (b1, snd bs)) (\<lambda>(b2, s2).
       forEach (if t = FRAGMENT then m_fragment_nodes s2 else m_vertex_nodes s2)
         loadConnectionsOf (b2, s2)))"

text \<open>
  \<^verbatim>\<open>load\<close> after the file dialog: \<open>file\<close> is the content of the chosen file, or \<open>None\<close>
  when \<^verbatim>\<open>fopen\<close> fails. The names are read into \<^verbatim>\<open>char[50]\<close> arrays.
\<close>

definition load :: "ShaderEditor \<Rightarrow> blob option \<Rightarrow> error + ShaderEditor" where
  "load s file =
     andThen (clear s) (\<lambda>s1.
       case file of
         None \<Rightarrow> Inr s1
       | Some data \<Rightarrow>
           andThen (read_strings (length (m_textures s1)) data) (\<lambda>(textures, b1).
           andThen (read_strings (length (m_vertex_outputs s1)) b1) (\<lambda>(outputs, b2).
           andThen (read_bools (length (m_vertex_inputs s1)) b2) (\<lambda>(inputs, b3).
             if \<exists>x \<in> set (textures @ outputs). length x \<ge> 50 then Inl AssertFailed
             else
               andThen (loadNodes VERTEX
                          (b3, s1\<lparr>m_textures := textures, m_vertex_outputs := outputs,
                                  m_vertex_inputs := inputs\<rparr>)) (\<lambda>bs.
               andThen (loadNodes FRAGMENT bs) (\<lambda>(b5, s5). Inr s5))))))"

text \<open>
  \<^verbatim>\<open>UniformNode::onGUI\<close>: the type and the name the user enters in the node's widgets.
\<close>

definition UniformNode_onGUI ::
  "ShaderEditor \<Rightarrow> addr \<Rightarrow> ValueType \<Rightarrow> string \<Rightarrow> error + ShaderEditor" where
  "UniformNode_onGUI s node vt name =
     andThen (deref s node) (\<lambda>n.
       case m_class n of
         UniformNode _ _ \<Rightarrow> Inr (store s node (n\<lparr>m_class := UniformNode name vt\<rparr>))
       | _ \<Rightarrow> Inl BadCast)"

subsection \<open>Notions the claims use\<close>

text \<open>All nodes of the editor, the fragment collection first.\<close>

definition nodes :: "ShaderEditor \<Rightarrow> addr list" where
  "nodes s = m_fragment_nodes s @ m_vertex_nodes s"

text \<open>An operation completed without an error, and its result satisfies \<open>P\<close>.\<close>

definition after :: "error + 'a \<Rightarrow> ('a \<Rightarrow> bool) \<Rightarrow> bool" where
  "after r P = (case r of Inl e \<Rightarrow> False | Inr x \<Rightarrow> P x)"

text \<open>
  The symmetry of the spec's data model: the peer of every connected input pin holds the
  node in one of its output pins, the peer of every connected output pin holds the node
  in one of its input pins, and every pointer leads to a live node.
\<close>

definition peerHas :: "ShaderEditor \<Rightarrow> addr \<Rightarrow> bool \<Rightarrow> addr option \<Rightarrow> bool" where
  "peerHas s a in_outputs q =
     (case q of
        None \<Rightarrow> True
      | Some b \<Rightarrow>
          (case heap s b of
             None \<Rightarrow> False
           | Some bn \<Rightarrow> Some a \<in> set (if in_outputs then m_outputs bn else m_inputs bn)))"

definition nodeSymmetric :: "ShaderEditor \<Rightarrow> addr \<Rightarrow> bool" where
  "nodeSymmetric s a =
     (case heap s a of
        None \<Rightarrow> False
      | Some n \<Rightarrow>
          list_all (peerHas s a True) (m_inputs n) \<and> list_all (peerHas s a False) (m_outputs n))"

definition pins_symmetric :: "ShaderEditor \<Rightarrow> bool" where
  "pins_symmetric s = list_all (nodeSymmetric s) (nodes s)"

text \<open>
  What the undo law observes of a graph: for every node its id, its position and the ids
  of the peers in its input and output pins.
\<close>

definition peerId :: "ShaderEditor \<Rightarrow> addr option \<Rightarrow> int option" where
  "peerId s q = (case q of None \<Rightarrow> None | Some b \<Rightarrow> map_option m_id (heap s b))"

definition observeNode :: "ShaderEditor \<Rightarrow> addr \<Rightarrow> (int \<times> ImVec2 \<times> int option list \<times> int option list) option" where
  "observeNode s a =
     map_option (\<lambda>n. (m_id n, m_pos n, map (peerId s) (m_inputs n), map (peerId s) (m_outputs n)))
       (heap s a)"

definition observable ::
  "ShaderEditor \<Rightarrow> (int \<times> ImVec2 \<times> int option list \<times> int option list) option list" where
  "observable s = map (observeNode s) (nodes s)"

text \<open>The class, with its payload, of the node that has a given id.\<close>

definition classOfId :: "ShaderEditor \<Rightarrow> int \<Rightarrow> NodeClass option" where
  "classOfId s i =
     (case getNodeByID s i of
        Inr (Some a) \<Rightarrow> map_option m_class (heap s a)
      | _ \<Rightarrow> None)"

text \<open>
  The vector-merge node as the spec words it: the connected inputs, in pin order, each
  with the component it is assigned to, and the code one of them contributes.
\<close>

definition merge_connected :: "Node \<Rightarrow> (addr \<times> string) list" where
  "merge_connected n =
     List.map_filter (\<lambda>(i, swizzle). map_option (\<lambda>q. (q, swizzle)) i)
       (zip (m_inputs n) [''.xyz = '', ''.x = '', ''.y = '', ''.z = '', ''.w = ''])"

definition merge_assignment ::
  "nat \<Rightarrow> ShaderEditor \<Rightarrow> Node \<Rightarrow> addr \<times> string \<Rightarrow> error + piece list" where
  "merge_assignment fuel s n c =
     andThen (Node_generate fuel s (fst c)) (\<lambda>g.
     andThen (printReference s (fst c)) (\<lambda>r.
       Inr (g @ [Str (TAB @ ''v''), Num (m_id n), Str (snd c)] @ r @ [Str ('';'' @ NL)])))"




text \<open>The number of writes to the file, and the text of a write.\<close>

fun is_write :: "event \<Rightarrow> bool" where
  "is_write (WroteText x) = True"
| "is_write (WroteBlob x) = True"
| "is_write _ = False"

definition writes :: "event list \<Rightarrow> nat" where
  "writes ev = length (filter is_write ev)"






text \<open>
  The rest of this subsection is the vocabulary of the facts about ids.
\<close>


text \<open>
  What an operation leaves alone when it neither creates nor destroys a node: the two
  collections, the id counter, the undo stack, the allocator, and the id of every node.
\<close>

definition same_ids :: "ShaderEditor \<Rightarrow> ShaderEditor \<Rightarrow> bool" where
  "same_ids s s' \<longleftrightarrow>
     m_fragment_nodes s' = m_fragment_nodes s \<and> m_vertex_nodes s' = m_vertex_nodes s
     \<and> m_last_node_id s' = m_last_node_id s \<and> m_undo_stack s' = m_undo_stack s
     \<and> m_undo_stack_idx s' = m_undo_stack_idx s \<and> next_addr s' = next_addr s
     \<and> (\<forall>p. map_option m_id (heap s' p) = map_option m_id (heap s p))"

text \<open>
  The id counter and the undo stack are unchanged.
\<close>

definition same_rest :: "ShaderEditor \<Rightarrow> ShaderEditor \<Rightarrow> bool" where
  "same_rest s s' \<longleftrightarrow>
     m_last_node_id s' = m_last_node_id s \<and> m_undo_stack s' = m_undo_stack s
     \<and> m_undo_stack_idx s' = m_undo_stack_idx s"

text \<open>
  Node \<open>p\<close> has been deleted and taken out of its collection; nothing else has changed an id.
\<close>

definition removed :: "addr \<Rightarrow> ShaderEditor \<Rightarrow> ShaderEditor \<Rightarrow> bool" where
  "removed p s s' \<longleftrightarrow>
     heap s' p = None
     \<and> (\<forall>q. q \<noteq> p \<longrightarrow> map_option m_id (heap s' q) = map_option m_id (heap s q))
     \<and> m_fragment_nodes s' = remove1 p (m_fragment_nodes s)
     \<and> m_vertex_nodes s' = remove1 p (m_vertex_nodes s)
     \<and> next_addr s' = next_addr s \<and> same_rest s s'"

text \<open>
  A node has been allocated at the next address \<open>p\<close> with id \<open>i\<close> and appended to the
  collection of stage \<open>t\<close>; nothing else has changed an id.
\<close>

definition added :: "addr \<Rightarrow> int \<Rightarrow> ShaderType \<Rightarrow> ShaderEditor \<Rightarrow> ShaderEditor \<Rightarrow> bool" where
  "added p i t s s' \<longleftrightarrow>
     p = next_addr s \<and> next_addr s' = Suc p
     \<and> map_option m_id (heap s' p) = Some i
     \<and> (\<forall>q. q \<noteq> p \<longrightarrow> map_option m_id (heap s' q) = map_option m_id (heap s q))
     \<and> m_fragment_nodes s' = (if t = FRAGMENT then m_fragment_nodes s @ [p] else m_fragment_nodes s)
     \<and> m_vertex_nodes s' = (if t = FRAGMENT then m_vertex_nodes s else m_vertex_nodes s @ [p])
     \<and> m_undo_stack s' = m_undo_stack s \<and> m_undo_stack_idx s' = m_undo_stack_idx s"

text \<open>
  The id of the node at an address, and the ids of all nodes in the order of \<open>nodes\<close>.
\<close>

definition idAt :: "ShaderEditor \<Rightarrow> addr \<Rightarrow> int" where
  "idAt s p = (case heap s p of None \<Rightarrow> 0 | Some n \<Rightarrow> m_id n)"

definition node_ids :: "ShaderEditor \<Rightarrow> int list" where
  "node_ids s = map (idAt s) (nodes s)"

text \<open>
  The collections and the heap agree: every node of a collection is live, and every live
  node is in a collection and was handed out by the allocator.
\<close>

definition graph_ok :: "ShaderEditor \<Rightarrow> bool" where
  "graph_ok s \<longleftrightarrow>
     (\<forall>p \<in> set (nodes s). heap s p \<noteq> None)
     \<and> (\<forall>p. heap s p \<noteq> None \<longrightarrow> p \<in> set (nodes s) \<and> p < next_addr s)"








text \<open>
  The collection of a stage.
\<close>

definition lst :: "ShaderType \<Rightarrow> ShaderEditor \<Rightarrow> addr list" where
  "lst t s = (if t = FRAGMENT then m_fragment_nodes s else m_vertex_nodes s)"

text \<open>
  Nothing changed but the id counter, which did not decrease.
\<close>

definition grown :: "ShaderEditor \<Rightarrow> ShaderEditor \<Rightarrow> bool" where
  "grown s s' \<longleftrightarrow>
     same_ids s (s'\<lparr>m_last_node_id := m_last_node_id s\<rparr>) \<and> m_last_node_id s \<le> m_last_node_id s'"


section \<open>Basic facts\<close>

lemma andThen_Inl [simp]: "andThen (Inl e) f = Inl e"
  by (simp add: andThen_def)

lemma andThen_Inr [simp]: "andThen (Inr x) f = f x"
  by (simp add: andThen_def)

lemma andThen_eq_Inr: "andThen m f = Inr y \<longleftrightarrow> (\<exists>x. m = Inr x \<and> f x = Inr y)"
  by (cases m) simp_all

lemma andThen_cong [fundef_cong]:
  "m = m' \<Longrightarrow> (\<And>x. m' = Inr x \<Longrightarrow> f x = f' x) \<Longrightarrow> andThen m f = andThen m' f'"
  by (cases m') simp_all

lemma find_id_Some:
  "find_id h ps i = Inr (Some p) \<Longrightarrow> p \<in> set ps \<and> (\<exists>n. h p = Some n \<and> m_id n = i)"
  by (induction ps) (auto split: option.splits if_splits)

lemma find_id_None:
  "find_id h ps i = Inr None \<Longrightarrow> q \<in> set ps \<Longrightarrow> \<exists>n. h q = Some n \<and> m_id n \<noteq> i"
  by (induction ps) (auto split: option.splits if_splits)

lemma find_id_total:
  "\<forall>q \<in> set ps. h q \<noteq> None \<Longrightarrow> \<exists>r. find_id h ps i = Inr r"
  by (induction ps) (auto split: option.splits)

lemma find_id_finds:
  "\<forall>q \<in> set ps. h q \<noteq> None \<Longrightarrow> q \<in> set ps \<Longrightarrow> h q = Some n \<Longrightarrow> m_id n = i \<Longrightarrow>
   \<exists>p. find_id h ps i = Inr (Some p)"
  by (induction ps) (auto split: option.splits)

lemma afterE: "after r P \<Longrightarrow> (\<And>x. r = Inr x \<Longrightarrow> P x \<Longrightarrow> Q) \<Longrightarrow> Q"
  by (cases r) (simp_all add: after_def)

lemma afterI: "r = Inr x \<Longrightarrow> P x \<Longrightarrow> after r P"
  by (simp add: after_def)

section \<open>Lookup by id\<close>

text \<open>
  Claim C10. \<^verbatim>\<open>getNodeByID\<close> returns a node whose id is the argument, and never a node
  with another id; it returns null only when no node of either collection has that id;
  it returns a result whenever both collections hold live nodes only; and a fragment
  node with that id is found before any vertex node.
\<close>

theorem getNodeByID_correct:
  "(getNodeByID s i = Inr (Some p) \<longrightarrow>
      p \<in> set (nodes s) \<and> (\<exists>n. heap s p = Some n \<and> m_id n = i))
   \<and> (getNodeByID s i = Inr None \<longrightarrow>
      (\<forall>q \<in> set (nodes s). \<exists>n. heap s q = Some n \<and> m_id n \<noteq> i))
   \<and> ((\<forall>q \<in> set (nodes s). heap s q \<noteq> None) \<longrightarrow> (\<exists>r. getNodeByID s i = Inr r))
   \<and> ((\<exists>q \<in> set (m_fragment_nodes s). \<exists>n. heap s q = Some n \<and> m_id n = i) \<longrightarrow>
        getNodeByID s i = Inr r \<longrightarrow> (\<exists>p \<in> set (m_fragment_nodes s). r = Some p))"
proof -
  have A: "p \<in> set (nodes s) \<and> (\<exists>n. heap s p = Some n \<and> m_id n = i)"
    if "getNodeByID s i = Inr (Some p)"
    using that
    by (auto simp: getNodeByID_def nodes_def split: sum.splits option.splits dest: find_id_Some)
  have B: "\<forall>q \<in> set (nodes s). \<exists>n. heap s q = Some n \<and> m_id n \<noteq> i"
    if a: "getNodeByID s i = Inr None"
  proof -
    from a have f: "find_id (heap s) (m_fragment_nodes s) i = Inr None"
      and v: "find_id (heap s) (m_vertex_nodes s) i = Inr None"
      by (auto simp: getNodeByID_def split: sum.splits option.splits)
    show ?thesis
      using find_id_None [OF f] find_id_None [OF v] by (auto simp: nodes_def)
  qed
  have C: "\<exists>r. getNodeByID s i = Inr r"
    if a: "\<forall>q \<in> set (nodes s). heap s q \<noteq> None"
  proof -
    from a obtain r1 r2 where "find_id (heap s) (m_fragment_nodes s) i = Inr r1"
      and "find_id (heap s) (m_vertex_nodes s) i = Inr r2"
      using find_id_total [of "m_fragment_nodes s" "heap s" i]
        find_id_total [of "m_vertex_nodes s" "heap s" i]
      by (auto simp: nodes_def)
    then show ?thesis
      by (cases r1) (simp_all add: getNodeByID_def)
  qed
  have D: "\<exists>p \<in> set (m_fragment_nodes s). r = Some p"
    if a: "\<exists>q \<in> set (m_fragment_nodes s). \<exists>n. heap s q = Some n \<and> m_id n = i"
      and b: "getNodeByID s i = Inr r"
  proof -
    from b obtain r1 where r1: "find_id (heap s) (m_fragment_nodes s) i = Inr r1"
      by (auto simp: getNodeByID_def split: sum.splits)
    show ?thesis
    proof (cases r1)
      case None
      with r1 a show ?thesis by (auto dest: find_id_None)
    next
      case (Some p)
      with r1 b have "r = Some p" by (simp add: getNodeByID_def)
      moreover from r1 Some have "p \<in> set (m_fragment_nodes s)" by (auto dest: find_id_Some)
      ultimately show ?thesis by blast
    qed
  qed
  from A B C D show ?thesis by blast
qed

theorem getNodeByID_correct_witness:
  "after (ShaderEditor_new 4 4 0) (\<lambda>s.
     getNodeByID s 2 = Inr (Some 1) \<and> 1 \<in> set (nodes s)
     \<and> (\<exists>n. heap s 1 = Some n \<and> m_id n = 2)
     \<and> getNodeByID s 7 = Inr None
     \<and> (\<forall>q \<in> set (nodes s). \<exists>n. heap s q = Some n \<and> m_id n \<noteq> 7)
     \<and> (\<forall>q \<in> set (nodes s). heap s q \<noteq> None)
     \<and> (\<exists>q \<in> set (m_fragment_nodes s). \<exists>n. heap s q = Some n \<and> m_id n = 1)
     \<and> (\<exists>p \<in> set (m_fragment_nodes s). getNodeByID s 1 = Inr (Some p)))"
proof -
  have "after (ShaderEditor_new 4 4 0) (\<lambda>s.
      getNodeByID s 2 = Inr (Some 1) \<and> getNodeByID s 7 = Inr None
      \<and> getNodeByID s 1 = Inr (Some 0) \<and> nodes s = [0, 1] \<and> m_fragment_nodes s = [0]
      \<and> map_option m_id (heap s 0) = Some 1 \<and> map_option m_id (heap s 1) = Some 2)"
    by code_simp
  then obtain s where s: "ShaderEditor_new 4 4 0 = Inr s"
    and h: "getNodeByID s 2 = Inr (Some 1)" "getNodeByID s 7 = Inr None"
      "getNodeByID s 1 = Inr (Some 0)" "nodes s = [0, 1]" "m_fragment_nodes s = [0]"
      "map_option m_id (heap s 0) = Some 1" "map_option m_id (heap s 1) = Some 2"
    by (auto elim!: afterE)
  have valid: "\<forall>q \<in> set (nodes s). heap s q \<noteq> None"
    using h by auto
  have frag: "\<exists>q \<in> set (m_fragment_nodes s). \<exists>n. heap s q = Some n \<and> m_id n = 1"
    using h by auto
  note t2 = getNodeByID_correct [of s 2 1]
  note t7 = getNodeByID_correct [of s 7]
  note t1 = getNodeByID_correct [of s 1 _ "Some 0"]
  show ?thesis
    using s h valid frag t2 t7 t1 by (intro afterI [OF s]) auto
qed

section \<open>Moves\<close>

lemma find_id_upd:
  "h a = Some nd \<Longrightarrow> m_id nd' = m_id nd \<Longrightarrow> find_id (h(a \<mapsto> nd')) ps i = find_id h ps i"
  by (induction ps) (auto split: option.splits)

lemma getNodeByID_store:
  "heap s a = Some nd \<Longrightarrow> m_id nd' = m_id nd \<Longrightarrow> getNodeByID (store s a nd') i = getNodeByID s i"
  by (simp add: getNodeByID_def store_def find_id_upd cong: sum.case_cong option.case_cong)

lemma getNodeByID_stack [simp]:
  "getNodeByID (s\<lparr>m_undo_stack := x\<rparr>) i = getNodeByID s i"
  "getNodeByID (s\<lparr>m_undo_stack_idx := y\<rparr>) i = getNodeByID s i"
  by (simp_all add: getNodeByID_def cong: sum.case_cong option.case_cong)

lemma getNodeByID_found:
  "getNodeByID s i = Inr (Some a) \<Longrightarrow> \<exists>nd. heap s a = Some nd \<and> m_id nd = i"
  by (auto simp: getNodeByID_def split: sum.splits option.splits dest: find_id_Some)

lemma setPos_eq:
  "getNodeByID s n = Inr (Some a) \<Longrightarrow> heap s a = Some nd \<Longrightarrow>
   setPos s n p = Inr (store s a (nd\<lparr>m_pos := p\<rparr>))"
  by (simp add: setPos_def nonnull_def deref_def)

lemma Move_new_eq:
  "getNodeByID s n = Inr (Some a) \<Longrightarrow> heap s a = Some nd \<Longrightarrow>
   MoveNodeCommand_new s n p = Inr \<lparr>mv_node = n, mv_new_pos = p, mv_old_pos = m_pos nd\<rparr>"
  by (simp add: MoveNodeCommand_new_def nonnull_def deref_def)

lemma Move_new_Inr:
  "MoveNodeCommand_new s n p = Inr c \<Longrightarrow>
   \<exists>a nd. getNodeByID s n = Inr (Some a) \<and> heap s a = Some nd"
  by (auto simp: MoveNodeCommand_new_def nonnull_def deref_def andThen_eq_Inr split: option.splits)

lemma cmd_merge_other:
  "\<forall>m. c = Move m \<longrightarrow> mv_node m \<noteq> mv_node x \<Longrightarrow> cmd_merge u c (Move x) = Inr (False, c)"
  by (cases c) auto

text \<open>A move that does not merge is pushed.\<close>

lemma execute_Move_push:
  assumes g: "getNodeByID s n = Inr (Some a)" and h: "heap s a = Some nd"
    and c: "mv_node c = n"
    and nm: "m_undo_stack_idx s < 0 \<or>
             (\<forall>m. m_undo_stack s ! nat (m_undo_stack_idx s) = Move m \<longrightarrow> mv_node m \<noteq> n)"
    and ex: "execute s (Move c) = Inr s1"
  shows "s1 = (store s a (nd\<lparr>m_pos := mv_new_pos c\<rparr>))
              \<lparr>m_undo_stack := take (nat (m_undo_stack_idx s + 1)) (m_undo_stack s) @ [Move c],
               m_undo_stack_idx := int (length (take (nat (m_undo_stack_idx s + 1)) (m_undo_stack s)))\<rparr>"
proof -
  let ?st = "take (nat (m_undo_stack_idx s + 1)) (m_undo_stack s)"
  let ?s0 = "s\<lparr>m_undo_stack := ?st\<rparr>"
  have push: "pushExecute ?s0 (Move c) = Inr ((store s a (nd\<lparr>m_pos := mv_new_pos c\<rparr>))
              \<lparr>m_undo_stack := ?st @ [Move c], m_undo_stack_idx := int (length ?st)\<rparr>)"
    using g h c
    by (simp add: pushExecute_def Let_def setPos_def nonnull_def deref_def store_def setCommand_def
        del: length_take)
  show ?thesis
  proof (cases "m_undo_stack_idx s < 0")
    case True
    with ex push show ?thesis by (simp add: execute_def Let_def)
  next
    case False
    with ex obtain t where t: "at ?st (m_undo_stack_idx s) = Inr t"
      by (auto simp: execute_def Let_def andThen_eq_Inr)
    then have lt: "m_undo_stack_idx s < int (length (m_undo_stack s))" and
      tt: "t = m_undo_stack s ! nat (m_undo_stack_idx s)"
      using False by (auto simp: at_def split: if_splits)
    from nm False tt c have "cmd_merge (uninit s) t (Move c) = Inr (False, t)"
      by (intro cmd_merge_other) auto
    with ex False t push show ?thesis by (simp add: execute_def Let_def)
  qed
qed

text \<open>A move of the node whose move is at the stack index merges into it.\<close>

lemma execute_Move_merge:
  assumes g: "getNodeByID s n = Inr (Some a)" and h: "heap s a = Some nd"
    and c: "mv_node c = n"
    and idx: "m_undo_stack_idx s = int k" and len: "k < length (m_undo_stack s)"
    and top: "m_undo_stack s ! k = Move m" and m: "mv_node m = n"
  shows "execute s (Move c) = Inr ((store s a (nd\<lparr>m_pos := mv_new_pos c\<rparr>))
              \<lparr>m_undo_stack := (take (Suc k) (m_undo_stack s))[k := Move (m\<lparr>mv_new_pos := mv_new_pos c\<rparr>)]\<rparr>)"
  using assms
  by (simp add: execute_def Let_def at_def setCommand_def setPos_def nonnull_def deref_def
      store_def nat_add_distrib)

text \<open>
  A move of the node whose move is the last entry of the stack, at the stack index, and
  the undo after it.
\<close>

lemma second_move_undo:
  assumes g1: "getNodeByID s1 n = Inr (Some a)" and h1: "heap s1 a = Some nd1"
    and idx: "m_undo_stack_idx s1 = int k" and len: "length (m_undo_stack s1) = Suc k"
    and top: "m_undo_stack s1 ! k = Move \<lparr>mv_node = n, mv_new_pos = p1, mv_old_pos = old\<rparr>"
    and m2: "step s1 (OpMove n p2) = Inr s2" and u: "undo s2 = Inr s3"
  shows "m_undo_stack s2
           = (m_undo_stack s1)[k := Move \<lparr>mv_node = n, mv_new_pos = p2, mv_old_pos = old\<rparr>]
     \<and> m_undo_stack_idx s2 = int k
     \<and> map_option m_pos (heap s2 a) = Some p2
     \<and> getNodeByID s3 n = Inr (Some a)
     \<and> map_option m_pos (heap s3 a) = Some old
     \<and> m_undo_stack_idx s3 = int k - 1"
proof -
  let ?c2 = "\<lparr>mv_node = n, mv_new_pos = p2, mv_old_pos = m_pos nd1\<rparr>"
  let ?e2 = "Move \<lparr>mv_node = n, mv_new_pos = p2, mv_old_pos = old\<rparr>"
  from m2 Move_new_eq [OF g1 h1, of p2] have e2: "execute s1 (Move ?c2) = Inr s2"
    by simp
  from len have lk: "k < length (m_undo_stack s1)" by simp
  have "execute s1 (Move ?c2) = Inr ((store s1 a (nd1\<lparr>m_pos := mv_new_pos ?c2\<rparr>))
      \<lparr>m_undo_stack := (take (Suc k) (m_undo_stack s1))
          [k := Move (\<lparr>mv_node = n, mv_new_pos = p1, mv_old_pos = old\<rparr>\<lparr>mv_new_pos := mv_new_pos ?c2\<rparr>)]\<rparr>)"
    by (rule execute_Move_merge [OF g1 h1 _ idx lk top]) simp_all
  with e2 len have s2: "s2 = (store s1 a (nd1\<lparr>m_pos := p2\<rparr>))
      \<lparr>m_undo_stack := (m_undo_stack s1)[k := ?e2]\<rparr>"
    by simp
  have g2: "getNodeByID s2 n = Inr (Some a)"
    using g1 h1 by (simp add: s2 getNodeByID_store)
  have h2: "heap s2 a = Some (nd1\<lparr>m_pos := p2\<rparr>)"
    by (simp add: s2 store_def)
  have i2: "m_undo_stack_idx s2 = int k"
    by (simp add: s2 idx store_def)
  have st2: "m_undo_stack s2 = (m_undo_stack s1)[k := ?e2]"
    by (simp add: s2 store_def)
  have "undo s2 = Inr (((store s2 a (nd1\<lparr>m_pos := p2, m_pos := old\<rparr>))
      \<lparr>m_undo_stack := (m_undo_stack s2)[k := ?e2]\<rparr>)\<lparr>m_undo_stack_idx := int k - 1\<rparr>)"
    using setPos_eq [OF g2 h2, of old] lk
    by (simp add: undo_def i2 st2 at_def setCommand_def store_def)
  with u have s3: "s3 = ((store s2 a (nd1\<lparr>m_pos := old\<rparr>))\<lparr>m_undo_stack := (m_undo_stack s2)[k := ?e2]\<rparr>)
      \<lparr>m_undo_stack_idx := int k - 1\<rparr>"
    by simp
  have g3: "getNodeByID s3 n = Inr (Some a)"
    using g2 h2 by (simp add: s3 getNodeByID_store)
  show ?thesis
    using g3 h2 i2 st2 by (simp add: s3 store_def)
qed

text \<open>
  Claim C6, as amended. Two consecutive moves of the same node leave one entry for both
  on the undo stack: the second move replaces the new position of the entry of the first
  and leaves the stack index where it was. Undoing that entry puts the node at the old
  position of the entry. That is the position before the first of the two moves when the
  first move was pushed. When the first move itself merged into a move of the same node
  that was at the stack index, the entry keeps the old position of that earlier move, and
  undo puts the node there.
\<close>

theorem move_merge:
  assumes m1: "step s (OpMove n p1) = Inr s1"
    and m2: "step s1 (OpMove n p2) = Inr s2"
    and u: "undo s2 = Inr s3"
  shows "\<exists>a nd k old. getNodeByID s n = Inr (Some a) \<and> heap s a = Some nd
     \<and> m_undo_stack_idx s1 = int k \<and> length (m_undo_stack s1) = Suc k
     \<and> m_undo_stack s1 ! k = Move \<lparr>mv_node = n, mv_new_pos = p1, mv_old_pos = old\<rparr>
     \<and> m_undo_stack s2
          = (m_undo_stack s1)[k := Move \<lparr>mv_node = n, mv_new_pos = p2, mv_old_pos = old\<rparr>]
     \<and> m_undo_stack_idx s2 = m_undo_stack_idx s1
     \<and> map_option m_pos (heap s1 a) = Some p1
     \<and> map_option m_pos (heap s2 a) = Some p2
     \<and> getNodeByID s3 n = Inr (Some a)
     \<and> map_option m_pos (heap s3 a) = Some old
     \<and> m_undo_stack_idx s3 = m_undo_stack_idx s1 - 1
     \<and> (if 0 \<le> m_undo_stack_idx s
            \<and> (\<exists>m. m_undo_stack s ! nat (m_undo_stack_idx s) = Move m \<and> mv_node m = n)
         then k = nat (m_undo_stack_idx s)
           \<and> (\<exists>m. m_undo_stack s ! k = Move m \<and> old = mv_old_pos m)
         else k = nat (m_undo_stack_idx s + 1) \<and> old = m_pos nd)"
proof -
  let ?st = "take (nat (m_undo_stack_idx s + 1)) (m_undo_stack s)"
  from m1 obtain c1 where c1: "MoveNodeCommand_new s n p1 = Inr c1"
    and e1: "execute s (Move c1) = Inr s1"
    by (auto simp: andThen_eq_Inr)
  from Move_new_Inr [OF c1] obtain a nd where g: "getNodeByID s n = Inr (Some a)"
    and h: "heap s a = Some nd" by blast
  let ?c1 = "\<lparr>mv_node = n, mv_new_pos = p1, mv_old_pos = m_pos nd\<rparr>"
  from c1 Move_new_eq [OF g h, of p1] have c1_eq: "c1 = ?c1" by simp
  let ?merged = "0 \<le> m_undo_stack_idx s
      \<and> (\<exists>m. m_undo_stack s ! nat (m_undo_stack_idx s) = Move m \<and> mv_node m = n)"
  have "\<exists>k old S. s1 = (store s a (nd\<lparr>m_pos := p1\<rparr>))\<lparr>m_undo_stack := S,
                       m_undo_stack_idx := int k\<rparr>
      \<and> length S = Suc k
      \<and> S ! k = Move \<lparr>mv_node = n, mv_new_pos = p1, mv_old_pos = old\<rparr>
      \<and> (if ?merged then k = nat (m_undo_stack_idx s)
             \<and> (\<exists>m. m_undo_stack s ! k = Move m \<and> old = mv_old_pos m)
          else k = nat (m_undo_stack_idx s + 1) \<and> old = m_pos nd)"
  proof (cases ?merged)
    case False
    then have fresh: "m_undo_stack_idx s < 0 \<or>
      (\<forall>m. m_undo_stack s ! nat (m_undo_stack_idx s) = Move m \<longrightarrow> mv_node m \<noteq> n)"
      by auto
    define K where "K = length ?st"
    have s1: "s1 = (store s a (nd\<lparr>m_pos := p1\<rparr>))
              \<lparr>m_undo_stack := ?st @ [Move ?c1], m_undo_stack_idx := int K\<rparr>"
      unfolding K_def using execute_Move_push [OF g h _ fresh e1] c1_eq by simp
    from e1 have "m_undo_stack_idx s < int (length (m_undo_stack s))"
      by (auto simp: execute_def Let_def andThen_eq_Inr at_def split: if_splits)
    then have l: "K = nat (m_undo_stack_idx s + 1)" by (simp add: K_def)
    have l2: "length (?st @ [Move ?c1]) = Suc K" by (simp add: K_def del: length_take)
    have l3: "(?st @ [Move ?c1]) ! K = Move ?c1" unfolding K_def by (rule nth_append_length)
    from False l have w: "if ?merged then K = nat (m_undo_stack_idx s)
             \<and> (\<exists>m. m_undo_stack s ! K = Move m \<and> m_pos nd = mv_old_pos m)
          else K = nat (m_undo_stack_idx s + 1) \<and> m_pos nd = m_pos nd"
      by (simp only: if_False simp_thms)
    from s1 l2 l3 w show ?thesis by blast
  next
    case True
    then obtain m where i0: "0 \<le> m_undo_stack_idx s"
      and top: "m_undo_stack s ! nat (m_undo_stack_idx s) = Move m" and mn: "mv_node m = n"
      by blast
    define k where "k = nat (m_undo_stack_idx s)"
    from i0 have idx: "m_undo_stack_idx s = int k" by (simp add: k_def)
    from e1 idx have len: "k < length (m_undo_stack s)"
      by (auto simp: execute_def Let_def andThen_eq_Inr at_def split: if_splits)
    have me: "m\<lparr>mv_new_pos := p1\<rparr> = \<lparr>mv_node = n, mv_new_pos = p1, mv_old_pos = mv_old_pos m\<rparr>"
      using mn by (cases m) simp
    define S where "S = (take (Suc k) (m_undo_stack s))[k := Move (m\<lparr>mv_new_pos := p1\<rparr>)]"
    have "execute s (Move ?c1) = Inr ((store s a (nd\<lparr>m_pos := mv_new_pos ?c1\<rparr>))
              \<lparr>m_undo_stack := (take (Suc k) (m_undo_stack s))[k := Move (m\<lparr>mv_new_pos := mv_new_pos ?c1\<rparr>)]\<rparr>)"
      by (rule execute_Move_merge [OF g h _ idx len top [folded k_def] mn]) simp
    with e1 c1_eq have "s1 = (store s a (nd\<lparr>m_pos := p1\<rparr>))\<lparr>m_undo_stack := S\<rparr>"
      by (simp add: S_def)
    moreover have "(store s a (nd\<lparr>m_pos := p1\<rparr>))\<lparr>m_undo_stack := S\<rparr>
        = (store s a (nd\<lparr>m_pos := p1\<rparr>))\<lparr>m_undo_stack := S, m_undo_stack_idx := int k\<rparr>"
      by (simp add: store_def idx [symmetric])
    ultimately have s1: "s1 = (store s a (nd\<lparr>m_pos := p1\<rparr>))
              \<lparr>m_undo_stack := S, m_undo_stack_idx := int k\<rparr>"
      by simp
    have l2: "length S = Suc k" using len by (simp add: S_def)
    have l3: "S ! k = Move \<lparr>mv_node = n, mv_new_pos = p1, mv_old_pos = mv_old_pos m\<rparr>"
      using len by (simp add: S_def me)
    from True top have w: "if ?merged then k = nat (m_undo_stack_idx s)
             \<and> (\<exists>x. m_undo_stack s ! k = Move x \<and> mv_old_pos m = mv_old_pos x)
          else k = nat (m_undo_stack_idx s + 1) \<and> mv_old_pos m = m_pos nd"
      by (auto simp: k_def)
    from s1 l2 l3 w show ?thesis by blast
  qed
  then obtain k old S where s1': "s1 = (store s a (nd\<lparr>m_pos := p1\<rparr>))\<lparr>m_undo_stack := S,
                       m_undo_stack_idx := int k\<rparr>"
    and lenS: "length S = Suc k"
    and topS: "S ! k = Move \<lparr>mv_node = n, mv_new_pos = p1, mv_old_pos = old\<rparr>"
    and which: "if ?merged then k = nat (m_undo_stack_idx s)
             \<and> (\<exists>m. m_undo_stack s ! k = Move m \<and> old = mv_old_pos m)
          else k = nat (m_undo_stack_idx s + 1) \<and> old = m_pos nd"
    by blast
  have S: "m_undo_stack s1 = S" by (simp add: s1')
  note len1 = lenS [folded S] and top1 = topS [folded S]
  note s1 = s1'
  have g1: "getNodeByID s1 n = Inr (Some a)"
    using g h by (subst s1) (simp add: getNodeByID_store)
  have h1: "heap s1 a = Some (nd\<lparr>m_pos := p1\<rparr>)"
    by (subst s1) (simp add: store_def)
  have i1: "m_undo_stack_idx s1 = int k"
    by (subst s1) simp
  from second_move_undo [OF g1 h1 i1 len1 top1 m2 u] g h h1 i1 len1 top1 which
  show ?thesis
    by (intro exI [of _ a] exI [of _ nd] exI [of _ k] exI [of _ old]) simp
qed


text \<open>
  The claim as stated fails when the first of the two moves is itself merged: node 3 is
  created at (0, 0) and moved to (1, 1); the moves to (2, 2) and to (3, 3) share the entry
  of that earlier move, and undoing it puts the node at (0, 0), not at (1, 1) where it was
  before the first of the two.
\<close>

theorem merged_moves_keep_oldest_position:
  "after (andThen (ShaderEditor_new 4 4 0) (\<lambda>e. run e
            [OpCreateNode FLOAT_CONST FRAGMENT (0, 0), OpMove 3 (1, 1)])) (\<lambda>s.
   after (step s (OpMove 3 (2, 2))) (\<lambda>s1.
   after (step s1 (OpMove 3 (3, 3))) (\<lambda>s2.
   after (undo s2) (\<lambda>s3.
     map_option m_pos (heap s 2) = Some (1, 1)
     \<and> length (m_undo_stack s1) = 2 \<and> length (m_undo_stack s2) = 2
     \<and> m_undo_stack_idx s1 = 1 \<and> m_undo_stack_idx s2 = 1
     \<and> map_option m_pos (heap s2 2) = Some (3, 3)
     \<and> map_option m_pos (heap s3 2) = Some (0, 0)
     \<and> map_option m_pos (heap s3 2) \<noteq> map_option m_pos (heap s 2)))))"
  by code_simp

text \<open>
  An instance: node 3 is created at (0, 0), so that the entry at the stack index is a
  create command; it is moved to (1, 1) and to (2, 2), and the undo puts it at (0, 0).
\<close>

theorem move_merge_witness:
  "after (andThen (ShaderEditor_new 4 4 0) (\<lambda>e. run e [OpCreateNode FLOAT_CONST FRAGMENT (0, 0)])) (\<lambda>s.
   after (step s (OpMove 3 (1, 1))) (\<lambda>s1.
   after (step s1 (OpMove 3 (2, 2))) (\<lambda>s2.
   after (undo s2) (\<lambda>s3.
     m_undo_stack_idx s = 0 \<and> (\<exists>c. m_undo_stack s ! 0 = Create c)
     \<and> length (m_undo_stack s1) = 2 \<and> length (m_undo_stack s2) = 2
     \<and> m_undo_stack_idx s1 = 1 \<and> m_undo_stack_idx s2 = 1 \<and> m_undo_stack_idx s3 = 0
     \<and> map_option m_pos (heap s 2) = Some (0, 0)
     \<and> map_option m_pos (heap s1 2) = Some (1, 1)
     \<and> map_option m_pos (heap s2 2) = Some (2, 2)
     \<and> map_option m_pos (heap s3 2) = Some (0, 0)))))"
proof -
  have "after (andThen (ShaderEditor_new 4 4 0) (\<lambda>e. run e [OpCreateNode FLOAT_CONST FRAGMENT (0, 0)])) (\<lambda>s.
   after (step s (OpMove 3 (1, 1))) (\<lambda>s1.
   after (step s1 (OpMove 3 (2, 2))) (\<lambda>s2.
   after (undo s2) (\<lambda>s3.
     m_undo_stack_idx s = 0 \<and> length (m_undo_stack s) = 1
     \<and> (case m_undo_stack s ! 0 of Create c \<Rightarrow> True | _ \<Rightarrow> False)
     \<and> getNodeByID s 3 = Inr (Some 2)
     \<and> map_option m_pos (heap s 2) = Some (0, 0)))))"
    by code_simp
  then obtain e s s1 s2 s3 where e: "ShaderEditor_new 4 4 0 = Inr e"
    and s: "run e [OpCreateNode FLOAT_CONST FRAGMENT (0, 0)] = Inr s"
    and m1: "step s (OpMove 3 (1, 1)) = Inr s1"
    and m2: "step s1 (OpMove 3 (2, 2)) = Inr s2"
    and u: "undo s2 = Inr s3"
    and idx: "m_undo_stack_idx s = 0" and len: "length (m_undo_stack s) = 1"
    and top: "case m_undo_stack s ! 0 of Create c \<Rightarrow> True | _ \<Rightarrow> False"
    and g: "getNodeByID s 3 = Inr (Some 2)"
    and pos: "map_option m_pos (heap s 2) = Some (0, 0)"
    by (auto elim!: afterE simp: andThen_eq_Inr)
  from top obtain c where c: "m_undo_stack s ! 0 = Create c"
    by (auto split: ICommand.splits)
  from move_merge [OF m1 m2 u] g pos idx len c
  have "m_undo_stack_idx s = 0 \<and> (\<exists>c. m_undo_stack s ! 0 = Create c)
     \<and> length (m_undo_stack s1) = 2 \<and> length (m_undo_stack s2) = 2
     \<and> m_undo_stack_idx s1 = 1 \<and> m_undo_stack_idx s2 = 1 \<and> m_undo_stack_idx s3 = 0
     \<and> map_option m_pos (heap s 2) = Some (0, 0)
     \<and> map_option m_pos (heap s1 2) = Some (1, 1)
     \<and> map_option m_pos (heap s2 2) = Some (2, 2)
     \<and> map_option m_pos (heap s3 2) = Some (0, 0)"
    by auto
  then show ?thesis
    using e s m1 m2 u by (simp add: after_def)
qed

section \<open>Undoing a connection\<close>

text \<open>
  Claim C1, at a failing input. In the new graph with a multiply node (id 3) and two float
  constants (ids 4 and 5), constant 4 feeds input 1 of the multiply node. Connecting
  constant 5 to that input and undoing the connection does not bring the state back:
  input 1 of the multiply node is empty afterwards, and constant 4 has lost its
  connection. The constructor of the command looked for the old peer of the
  destination at the index of the source pin.
\<close>

theorem connect_undo_loses_connection:
  "after (andThen (ShaderEditor_new 4 4 0) (\<lambda>e. run e
          [OpCreateNode MULTIPLY FRAGMENT (0, 0), OpCreateNode FLOAT_CONST FRAGMENT (0, 0),
           OpCreateNode FLOAT_CONST FRAGMENT (0, 0), OpConnect 4 0 3 1])) (\<lambda>s.
   after (step s (OpConnect 5 0 3 1)) (\<lambda>s1.
   after (undo s1) (\<lambda>s2.
     pins_symmetric s
     \<and> map_option (fst \<circ> snd \<circ> snd) (observeNode s 2) = Some [None, Some 4]
     \<and> map_option (fst \<circ> snd \<circ> snd) (observeNode s1 2) = Some [None, Some 5]
     \<and> map_option (fst \<circ> snd \<circ> snd) (observeNode s2 2) = Some [None, None]
     \<and> observable s2 \<noteq> observable s)))"
  by code_simp

section \<open>Symmetry of the pins\<close>

text \<open>
  Claim C3, at a failing input. Constant 4 feeds input 0 of the multiply node 3, then
  constant 5 is connected to input 1. The command recorded constant 4 as the old peer
  of input 1; its undo writes constant 4 into input 1, and its redo then clears the
  output pin of constant 4. Input 0 of the multiply node still points at constant 4,
  whose output pin is empty.
\<close>

theorem undo_redo_breaks_symmetry:
  "after (andThen (ShaderEditor_new 4 4 0) (\<lambda>e. run e
          [OpCreateNode MULTIPLY FRAGMENT (0, 0), OpCreateNode FLOAT_CONST FRAGMENT (0, 0),
           OpCreateNode FLOAT_CONST FRAGMENT (0, 0), OpConnect 4 0 3 0, OpConnect 5 0 3 1])) (\<lambda>s.
   after (run s [OpUndo, OpRedo]) (\<lambda>s'.
     pins_symmetric s
     \<and> map_option m_inputs (heap s' 2) = Some [Some 3, Some 4]
     \<and> map_option m_outputs (heap s' 3) = Some [None]
     \<and> \<not> pins_symmetric s'))"
  by code_simp

section \<open>Saving and loading\<close>

text \<open>
  Claim C2, at a failing input. A uniform node whose name and type the user has set is
  saved and loaded: the loaded node has the empty name and the type vec4 of a new
  uniform node, because \<^verbatim>\<open>UniformNode::save\<close> writes \<open>m_type\<close> and neither the name
  nor the value type.
\<close>

theorem uniform_payload_not_saved:
  "after (andThen (ShaderEditor_new 4 4 0) (\<lambda>e.
          andThen (run e [OpCreateNode UNIFORM FRAGMENT (0, 0)]) (\<lambda>s.
            UniformNode_onGUI s 2 VEC3 ''u_color''))) (\<lambda>s.
   after (save_blob s) (\<lambda>file.
   after (load s (Some file)) (\<lambda>s'.
     classOfId s 3 = Some (UniformNode ''u_color'' VEC3)
     \<and> classOfId s' 3 = Some (UniformNode [] VEC4))))"
  by code_simp

section \<open>Code generation\<close>

lemma collect_Inl_first: "f x = Inl e \<Longrightarrow> collect (x # xs) f = Inl e"
  by simp

lemma Node_generate_Mix_fails:
  assumes "heap s a = Some n" "m_class n = MixNode" "m_inputs n = [None, None, None]"
  shows "\<exists>e. Node_generate fuel s a = Inl e"
proof (cases fuel)
  case 0
  then show ?thesis by simp
next
  case (Suc f)
  show ?thesis
  proof (cases f)
    case 0
    with Suc assms show ?thesis by (simp add: deref_def at_def)
  next
    case (Suc g)
    with \<open>fuel = Suc f\<close> assms show ?thesis
      by (simp add: deref_def at_def getInputTypeWith_def)
  qed
qed

lemma generate_text_Mix_fails:
  assumes f: "m_fragment_nodes s = a # rest"
    and a: "heap s a = Some n" "m_class n = FragmentOutputNode" "m_inputs n = [Some b]"
      "m_type n = 4"
    and b: "heap s b = Some m" "m_class m = MixNode" "m_inputs m = [None, None, None]"
  shows "\<exists>e. generate_text fuel s FRAGMENT = Inl e"
proof -
  have "\<exists>e. Node_generate fuel s a = Inl e"
  proof (cases fuel)
    case 0
    then show ?thesis by simp
  next
    case (Suc k)
    from Node_generate_Mix_fails [OF b, of k] obtain e where "Node_generate k s b = Inl e" ..
    with Suc a show ?thesis
      by (simp add: deref_def terminalGenerate_def at_def)
  qed
  then obtain e where "generateTerminal fuel s a = Inl e"
    using a by (auto simp: generateTerminal_def deref_def isTerminal_def)
  then have "collect (m_fragment_nodes s) (generateTerminal fuel s) = Inl e"
    by (simp add: f)
  then show ?thesis
    by (cases "collect (m_fragment_nodes s) (generateBeforeMain s)")
      (simp_all add: generate_text_def)
qed

text \<open>
  Claim C4, at a failing input. A mix node with no input connected feeds the fragment
  output. The pins are symmetric, and the state is reached by creating the node and
  connecting it. \<^verbatim>\<open>MixNode::generate\<close> asks for the name of the type of its input 1,
  which is \<open>NONE\<close>, and \<^verbatim>\<open>getValueTypeName\<close> asserts. No amount of fuel gives a text.
  On the default graph the text is the one the claim expects.
\<close>

theorem generate_fails_on_open_mix:
  "after (andThen (ShaderEditor_new 4 4 0) (\<lambda>e. run e
          [OpCreateNode MIX FRAGMENT (0, 0), OpConnect 3 0 1 0])) (\<lambda>s.
     pins_symmetric s
     \<and> generate_text 3 s FRAGMENT = Inl AssertFailed
     \<and> (\<forall>fuel. \<exists>e. generate_text fuel s FRAGMENT = Inl e))"
proof -
  have "after (andThen (ShaderEditor_new 4 4 0) (\<lambda>e. run e
          [OpCreateNode MIX FRAGMENT (0, 0), OpConnect 3 0 1 0])) (\<lambda>s.
     pins_symmetric s
     \<and> generate_text 3 s FRAGMENT = Inl AssertFailed
     \<and> m_fragment_nodes s = [0, 2]
     \<and> map_option m_class (heap s 0) = Some FragmentOutputNode
     \<and> map_option m_inputs (heap s 0) = Some [Some 2]
     \<and> map_option m_type (heap s 0) = Some 4
     \<and> map_option m_class (heap s 2) = Some MixNode
     \<and> map_option m_inputs (heap s 2) = Some [None, None, None])"
    by code_simp
  then obtain s where s: "andThen (ShaderEditor_new 4 4 0) (\<lambda>e. run e
          [OpCreateNode MIX FRAGMENT (0, 0), OpConnect 3 0 1 0]) = Inr s"
    and sym: "pins_symmetric s" and g3: "generate_text 3 s FRAGMENT = Inl AssertFailed"
    and f: "m_fragment_nodes s = [0, 2]"
    and h: "map_option m_class (heap s 0) = Some FragmentOutputNode"
      "map_option m_inputs (heap s 0) = Some [Some 2]"
      "map_option m_type (heap s 0) = Some 4"
      "map_option m_class (heap s 2) = Some MixNode"
      "map_option m_inputs (heap s 2) = Some [None, None, None]"
    by (auto elim!: afterE)
  from h obtain n m where "heap s 0 = Some n" "m_class n = FragmentOutputNode"
    "m_inputs n = [Some 2]" "m_type n = 4"
    "heap s 2 = Some m" "m_class m = MixNode" "m_inputs m = [None, None, None]"
    by auto
  from generate_text_Mix_fails [OF f this]
  have "\<forall>fuel. \<exists>e. generate_text fuel s FRAGMENT = Inl e" by blast
  with s sym g3 show ?thesis by (simp add: after_def)
qed

lemma default_graph_text:
  "after (ShaderEditor_new 4 4 0) (\<lambda>s.
     generate_text 1 s FRAGMENT =
       Inr [Str ''$input '', Str NL, Str (''#include '' @ QUOTE @ ''common.sh'' @ QUOTE @ NL),
            Str (''void main() {'' @ NL),
            Str (TAB @ ''gl_FragColor = vec4(1, 0, 1, 1);'' @ NL),
            Str (''}'' @ NL)])"
  by code_simp

lemma andThen_assoc: "andThen (andThen m f) g = andThen m (\<lambda>x. andThen (f x) g)"
  by (cases m) simp_all

lemma collect_Cons: 
  "collect (x # xs) f = andThen (f x) (\<lambda>a. andThen (collect xs f) (\<lambda>b. Inr (a @ b)))"
  by (simp add: andThen_def split: sum.splits)

lemma length5E:
  assumes "length xs = 5"
  obtains a b c d e where "xs = [a, b, c, d, e]"
  using assms by (auto simp: length_Suc_conv eval_nat_numeral)

lemma length3E:
  assumes "length xs = 3"
  obtains a b c where "xs = [a, b, c]"
  using assms by (auto simp: length_Suc_conv eval_nat_numeral)

lemma Vec4Merge_generate:
  assumes h: "heap s a = Some n" and c: "m_class n = Vec4MergeNode"
    and l: "length (m_inputs n) = 5"
  shows "Node_generate (Suc fuel) s a =
     andThen (collect (merge_connected n) (merge_assignment fuel s n)) (\<lambda>parts.
       Inr ([Str (TAB @ ''vec4 v''), Num (m_id n), Str ('';'' @ NL)] @ parts))"
proof -
  from l obtain i0 i1 i2 i3 i4 where i: "m_inputs n = [i0, i1, i2, i3, i4]"
    by (rule length5E)
  show ?thesis
    by (cases i0; cases i1; cases i2; cases i3; cases i4)
      (simp_all add: h c i deref_def mergeInput_def at_def merge_connected_def
        merge_assignment_def andThen_assoc collect_Cons
        del: collect.simps(2))
qed

lemma Mix_generate_open:
  assumes h: "heap s a = Some n" and c: "m_class n = MixNode"
    and l: "length (m_inputs n) = 3" and u: "None \<in> set (m_inputs n)"
  shows "Node_generate (Suc fuel) s a =
     andThen (getOutputType fuel s a) (\<lambda>t. andThen (getValueTypeName t) (\<lambda>name.
       Inr [Str TAB, Str name, Str '' v'', Num (m_id n), Str ('';'' @ NL)]))"
proof -
  from l obtain i0 i1 i2 where i: "m_inputs n = [i0, i1, i2]"
    by (rule length3E)
  with u have "i0 = None \<or> i1 = None \<or> i2 = None" by auto
  then show ?thesis
    by (cases i0; cases i1; cases i2) (auto simp: h c i deref_def at_def)
qed

lemma Mix_type:
  assumes h: "heap s a = Some n" and c: "m_class n = MixNode"
    and l: "length (m_inputs n) = 3" and q: "m_inputs n ! 1 = Some q"
  shows "getOutputType (Suc fuel) s a = getOutputType fuel s q"
  using h c l q by (simp add: deref_def getInputTypeWith_def at_def)

lemma getValueTypeName_Inr: "t \<noteq> NONE \<Longrightarrow> \<exists>name. getValueTypeName t = Inr name"
  by (cases t) simp_all

lemma Mix_generate_full:
  assumes h: "heap s a = Some n" and c: "m_class n = MixNode"
    and i: "m_inputs n = [Some q0, Some q1, Some q2]"
    and g: "Node_generate (Suc fuel) s a = Inr out"
  shows "\<exists>g0 g1 g2 r0 r1 r2 name.
     Node_generate fuel s q0 = Inr g0 \<and> Node_generate fuel s q1 = Inr g1
     \<and> Node_generate fuel s q2 = Inr g2
     \<and> printReference s q0 = Inr r0 \<and> printReference s q1 = Inr r1
     \<and> printReference s q2 = Inr r2
     \<and> out = g0 @ g1 @ g2 @ [Str TAB, Str name, Str '' v'', Num (m_id n), Str '' = mix('']
             @ r0 @ [Str '', ''] @ r1 @ [Str '', ''] @ r2 @ [Str '');'']"
  using g by (auto simp: h c i deref_def at_def andThen_eq_Inr)


text \<open>
  Claim C5, as amended. The vector-merge node writes its declaration and then, for each
  connected input in pin order, the code of that input and an assignment of its
  reference; an input that is not connected contributes nothing, and with no input
  connected the declaration is all it writes. The mix node writes the code of its
  inputs and a \<^verbatim>\<open>mix\<close> statement only when all three inputs are connected. When one
  of them is not, it writes the code of no input, whatever the other inputs are connected
  to: it writes nothing but the declaration of its temporary under the name of its type,
  and it does write that declaration when input 1, where it takes its type from, is
  connected to a node that has a type.
\<close>

theorem merge_and_mix_generate:
  "(heap s a = Some n \<and> m_class n = Vec4MergeNode \<and> length (m_inputs n) = 5 \<longrightarrow>
      merge_connected n
        = List.map_filter (\<lambda>(i, swizzle). map_option (\<lambda>q. (q, swizzle)) i)
            (zip (m_inputs n) [''.xyz = '', ''.x = '', ''.y = '', ''.z = '', ''.w = ''])
      \<and> Node_generate (Suc fuel) s a =
         andThen (collect (merge_connected n) (merge_assignment fuel s n)) (\<lambda>parts.
           Inr ([Str (TAB @ ''vec4 v''), Num (m_id n), Str ('';'' @ NL)] @ parts))
      \<and> (merge_connected n = [] \<longrightarrow>
           Node_generate (Suc fuel) s a
             = Inr [Str (TAB @ ''vec4 v''), Num (m_id n), Str ('';'' @ NL)]))
   \<and> (heap s a = Some n \<and> m_class n = MixNode \<and> length (m_inputs n) = 3
        \<and> None \<in> set (m_inputs n) \<longrightarrow>
      Node_generate (Suc fuel) s a =
        andThen (getOutputType fuel s a) (\<lambda>t. andThen (getValueTypeName t) (\<lambda>name.
          Inr [Str TAB, Str name, Str '' v'', Num (m_id n), Str ('';'' @ NL)]))
      \<and> (\<forall>q t. m_inputs n ! 1 = Some q \<and> getOutputType fuel s q = Inr t \<and> t \<noteq> NONE \<longrightarrow>
           (\<exists>name. getValueTypeName t = Inr name
              \<and> Node_generate (Suc (Suc fuel)) s a
                  = Inr [Str TAB, Str name, Str '' v'', Num (m_id n), Str ('';'' @ NL)])))
   \<and> (heap s a = Some n \<and> m_class n = MixNode \<and> m_inputs n = [Some q0, Some q1, Some q2]
        \<and> Node_generate (Suc fuel) s a = Inr out \<longrightarrow>
      (\<exists>g0 g1 g2 r0 r1 r2 name.
         Node_generate fuel s q0 = Inr g0 \<and> Node_generate fuel s q1 = Inr g1
         \<and> Node_generate fuel s q2 = Inr g2
         \<and> printReference s q0 = Inr r0 \<and> printReference s q1 = Inr r1
         \<and> printReference s q2 = Inr r2
         \<and> out = g0 @ g1 @ g2 @ [Str TAB, Str name, Str '' v'', Num (m_id n), Str '' = mix('']
                 @ r0 @ [Str '', ''] @ r1 @ [Str '', ''] @ r2 @ [Str '');'']))"
proof -
  have A: "Node_generate (Suc fuel) s a =
         andThen (collect (merge_connected n) (merge_assignment fuel s n)) (\<lambda>parts.
           Inr ([Str (TAB @ ''vec4 v''), Num (m_id n), Str ('';'' @ NL)] @ parts))"
    if "heap s a = Some n" "m_class n = Vec4MergeNode" "length (m_inputs n) = 5"
    using that by (rule Vec4Merge_generate)
  have B: "Node_generate (Suc fuel) s a =
        andThen (getOutputType fuel s a) (\<lambda>t. andThen (getValueTypeName t) (\<lambda>name.
          Inr [Str TAB, Str name, Str '' v'', Num (m_id n), Str ('';'' @ NL)]))"
    if "heap s a = Some n" "m_class n = MixNode" "length (m_inputs n) = 3"
      "None \<in> set (m_inputs n)" for fuel
    using that by (rule Mix_generate_open)
  have B2: "\<exists>name. getValueTypeName t = Inr name
              \<and> Node_generate (Suc (Suc fuel)) s a
                  = Inr [Str TAB, Str name, Str '' v'', Num (m_id n), Str ('';'' @ NL)]"
    if "heap s a = Some n" "m_class n = MixNode" "length (m_inputs n) = 3"
      "None \<in> set (m_inputs n)" "m_inputs n ! 1 = Some q" "getOutputType fuel s q = Inr t"
      "t \<noteq> NONE" for q t
  proof -
    from getValueTypeName_Inr [OF that(7)] obtain name where nm: "getValueTypeName t = Inr name"
      by blast
    from Mix_type [OF that(1,2,3,5)] that(6) have "getOutputType (Suc fuel) s a = Inr t" by simp
    with B [OF that(1-4), of "Suc fuel"] nm show ?thesis by simp
  qed
  have C: "\<exists>g0 g1 g2 r0 r1 r2 name.
         Node_generate fuel s q0 = Inr g0 \<and> Node_generate fuel s q1 = Inr g1
         \<and> Node_generate fuel s q2 = Inr g2
         \<and> printReference s q0 = Inr r0 \<and> printReference s q1 = Inr r1
         \<and> printReference s q2 = Inr r2
         \<and> out = g0 @ g1 @ g2 @ [Str TAB, Str name, Str '' v'', Num (m_id n), Str '' = mix('']
                 @ r0 @ [Str '', ''] @ r1 @ [Str '', ''] @ r2 @ [Str '');'']"
    if "heap s a = Some n" "m_class n = MixNode" "m_inputs n = [Some q0, Some q1, Some q2]"
      "Node_generate (Suc fuel) s a = Inr out"
    using that by (rule Mix_generate_full)
  show ?thesis
    apply (intro conjI impI)
    subgoal by (simp add: merge_connected_def)
    subgoal using A by blast
    subgoal using A by simp
    subgoal using B by blast
    subgoal using B2 by blast
    subgoal using C by blast
    done
qed

text \<open>
  The claim as stated fails for the mix node: inputs 0 and 1 are connected to sample
  nodes, each of which generates a statement; input 2 is not connected; the mix node
  writes its declaration only.
\<close>

theorem mix_skips_connected_inputs:
  "after (andThen (ShaderEditor_new 4 4 0) (\<lambda>e. run e
     [OpCreateNode MIX FRAGMENT (0, 0), OpCreateNode SAMPLE FRAGMENT (0, 0),
      OpCreateNode SAMPLE FRAGMENT (0, 0), OpConnect 4 0 3 0, OpConnect 5 0 3 1])) (\<lambda>s.
     map_option m_class (heap s 2) = Some MixNode
     \<and> map_option m_inputs (heap s 2) = Some [Some 3, Some 4, None]
     \<and> Node_generate 3 s 3
         = Inr [Str (TAB @ ''vec4 v''), Num 4, Str ('' = vec4(1, 0, 1, 0);'' @ NL)]
     \<and> Node_generate 3 s 4
         = Inr [Str (TAB @ ''vec4 v''), Num 5, Str ('' = vec4(1, 0, 1, 0);'' @ NL)]
     \<and> Node_generate 3 s 2 = Inr [Str TAB, Str ''vec4'', Str '' v'', Num 3, Str ('';'' @ NL)])"
  by code_simp

theorem merge_and_mix_generate_witness:
  "after (andThen (ShaderEditor_new 4 4 0) (\<lambda>e. run e
     [OpCreateNode VEC4_MERGE FRAGMENT (0, 0), OpCreateNode SAMPLE FRAGMENT (0, 0),
      OpConnect 4 0 3 2,
      OpCreateNode MIX FRAGMENT (0, 0), OpCreateNode SAMPLE FRAGMENT (0, 0), OpConnect 6 0 5 1,
      OpCreateNode MIX FRAGMENT (0, 0), OpCreateNode SAMPLE FRAGMENT (0, 0),
      OpCreateNode SAMPLE FRAGMENT (0, 0), OpCreateNode SAMPLE FRAGMENT (0, 0),
      OpConnect 8 0 7 0, OpConnect 9 0 7 1, OpConnect 10 0 7 2])) (\<lambda>s.
     map_option m_class (heap s 2) = Some Vec4MergeNode
     \<and> map_option m_inputs (heap s 2) = Some [None, None, Some 3, None, None]
     \<and> Node_generate (Suc 2) s 2
         = Inr [Str (TAB @ ''vec4 v''), Num 3, Str ('';'' @ NL),
                Str (TAB @ ''vec4 v''), Num 4, Str ('' = vec4(1, 0, 1, 0);'' @ NL),
                Str (TAB @ ''v''), Num 3, Str ''.y = '', Str ''v'', Num 4, Str ('';'' @ NL)]
     \<and> map_option m_class (heap s 4) = Some MixNode
     \<and> map_option m_inputs (heap s 4) = Some [None, Some 5, None]
     \<and> Node_generate (Suc (Suc 1)) s 4
         = Inr [Str TAB, Str ''vec4'', Str '' v'', Num 5, Str ('';'' @ NL)]
     \<and> map_option m_class (heap s 6) = Some MixNode
     \<and> map_option m_inputs (heap s 6) = Some [Some 7, Some 8, Some 9]
     \<and> (\<exists>g0 g1 g2 r0 r1 r2 name.
          Node_generate 2 s 7 = Inr g0 \<and> Node_generate 2 s 8 = Inr g1
          \<and> Node_generate 2 s 9 = Inr g2
          \<and> printReference s 7 = Inr r0 \<and> printReference s 8 = Inr r1
          \<and> printReference s 9 = Inr r2
          \<and> Node_generate (Suc 2) s 6
              = Inr (g0 @ g1 @ g2 @ [Str TAB, Str name, Str '' v'', Num 7, Str '' = mix('']
                     @ r0 @ [Str '', ''] @ r1 @ [Str '', ''] @ r2 @ [Str '');''])))"
proof -
  let ?trace = "andThen (ShaderEditor_new 4 4 0) (\<lambda>e. run e
     [OpCreateNode VEC4_MERGE FRAGMENT (0, 0), OpCreateNode SAMPLE FRAGMENT (0, 0),
      OpConnect 4 0 3 2,
      OpCreateNode MIX FRAGMENT (0, 0), OpCreateNode SAMPLE FRAGMENT (0, 0), OpConnect 6 0 5 1,
      OpCreateNode MIX FRAGMENT (0, 0), OpCreateNode SAMPLE FRAGMENT (0, 0),
      OpCreateNode SAMPLE FRAGMENT (0, 0), OpCreateNode SAMPLE FRAGMENT (0, 0),
      OpConnect 8 0 7 0, OpConnect 9 0 7 1, OpConnect 10 0 7 2])"
  have "after ?trace (\<lambda>s.
     map_option m_class (heap s 2) = Some Vec4MergeNode
     \<and> map_option m_inputs (heap s 2) = Some [None, None, Some 3, None, None]
     \<and> map_option m_id (heap s 2) = Some 3
     \<and> merge_assignment 2 s (the (heap s 2)) (3, ''.y = '')
         = Inr [Str (TAB @ ''vec4 v''), Num 4, Str ('' = vec4(1, 0, 1, 0);'' @ NL),
                Str (TAB @ ''v''), Num 3, Str ''.y = '', Str ''v'', Num 4, Str ('';'' @ NL)]
     \<and> map_option m_class (heap s 4) = Some MixNode
     \<and> map_option m_inputs (heap s 4) = Some [None, Some 5, None]
     \<and> map_option m_id (heap s 4) = Some 5
     \<and> getOutputType 1 s 5 = Inr VEC4
     \<and> map_option m_class (heap s 6) = Some MixNode
     \<and> map_option m_inputs (heap s 6) = Some [Some 7, Some 8, Some 9]
     \<and> map_option m_id (heap s 6) = Some 7
     \<and> (case Node_generate (Suc 2) s 6 of Inr out \<Rightarrow> True | Inl e \<Rightarrow> False))"
    by code_simp
  then obtain s where s: "?trace = Inr s"
    and h2: "map_option m_class (heap s 2) = Some Vec4MergeNode"
      "map_option m_inputs (heap s 2) = Some [None, None, Some 3, None, None]"
      "map_option m_id (heap s 2) = Some 3"
    and p2: "merge_assignment 2 s (the (heap s 2)) (3, ''.y = '')
         = Inr [Str (TAB @ ''vec4 v''), Num 4, Str ('' = vec4(1, 0, 1, 0);'' @ NL),
                Str (TAB @ ''v''), Num 3, Str ''.y = '', Str ''v'', Num 4, Str ('';'' @ NL)]"
    and h4: "map_option m_class (heap s 4) = Some MixNode"
      "map_option m_inputs (heap s 4) = Some [None, Some 5, None]"
      "map_option m_id (heap s 4) = Some 5"
    and g4: "getOutputType 1 s 5 = Inr VEC4"
    and h6: "map_option m_class (heap s 6) = Some MixNode"
      "map_option m_inputs (heap s 6) = Some [Some 7, Some 8, Some 9]"
      "map_option m_id (heap s 6) = Some 7"
    and g6: "case Node_generate (Suc 2) s 6 of Inr out \<Rightarrow> True | Inl e \<Rightarrow> False"
    by (auto elim!: afterE)
  from h2 obtain n2 where n2: "heap s 2 = Some n2" "m_class n2 = Vec4MergeNode"
    "m_inputs n2 = [None, None, Some 3, None, None]" "m_id n2 = 3" by auto
  from h4 obtain n4 where n4: "heap s 4 = Some n4" "m_class n4 = MixNode"
    "m_inputs n4 = [None, Some 5, None]" "m_id n4 = 5" by auto
  from h6 obtain n6 where n6: "heap s 6 = Some n6" "m_class n6 = MixNode"
    "m_inputs n6 = [Some 7, Some 8, Some 9]" "m_id n6 = 7" by auto
  from g6 obtain out6 where out6: "Node_generate (Suc 2) s 6 = Inr out6"
    by (auto split: sum.splits)
  have mc: "merge_connected n2 = [(3, ''.y = '')]"
    using merge_and_mix_generate [where s = s and a = 2 and n = n2 and fuel = 2] n2
    by simp
  have a2: "Node_generate (Suc 2) s 2
         = Inr [Str (TAB @ ''vec4 v''), Num 3, Str ('';'' @ NL),
                Str (TAB @ ''vec4 v''), Num 4, Str ('' = vec4(1, 0, 1, 0);'' @ NL),
                Str (TAB @ ''v''), Num 3, Str ''.y = '', Str ''v'', Num 4, Str ('';'' @ NL)]"
    using merge_and_mix_generate [where s = s and a = 2 and n = n2 and fuel = 2] n2 p2 mc
    by (simp del: Node_generate.simps)
  have a4: "Node_generate (Suc (Suc 1)) s 4
         = Inr [Str TAB, Str ''vec4'', Str '' v'', Num 5, Str ('';'' @ NL)]"
    using merge_and_mix_generate [where s = s and a = 4 and n = n4 and fuel = 1] n4 g4
    by (auto simp del: Node_generate.simps getOutputType.simps)
  have a6: "\<exists>g0 g1 g2 r0 r1 r2 name.
          Node_generate 2 s 7 = Inr g0 \<and> Node_generate 2 s 8 = Inr g1
          \<and> Node_generate 2 s 9 = Inr g2
          \<and> printReference s 7 = Inr r0 \<and> printReference s 8 = Inr r1
          \<and> printReference s 9 = Inr r2
          \<and> Node_generate (Suc 2) s 6
              = Inr (g0 @ g1 @ g2 @ [Str TAB, Str name, Str '' v'', Num 7, Str '' = mix('']
                     @ r0 @ [Str '', ''] @ r1 @ [Str '', ''] @ r2 @ [Str '');''])"
    using merge_and_mix_generate [where s = s and a = 6 and n = n6 and fuel = 2 and out = out6
        and ?q0.0 = 7 and ?q1.0 = 8 and ?q2.0 = 9] n6 out6
    by (simp del: Node_generate.simps)
  show ?thesis
    using s h2 h4 h6 a2 a4 a6 by (simp add: after_def del: Node_generate.simps)
qed

section \<open>Writing files\<close>





lemma writes_append: "writes (xs @ ys) = writes xs + writes ys"
  by (simp add: writes_def)





section \<open>What the operations do to the ids\<close>

lemma same_ids_refl [simp]: "same_ids s s"
  by (simp add: same_ids_def)

lemma same_ids_trans: "same_ids s s1 \<Longrightarrow> same_ids s1 s2 \<Longrightarrow> same_ids s s2"
  by (simp add: same_ids_def)

lemma same_ids_store:
  "heap s p = Some n \<Longrightarrow> m_id n' = m_id n \<Longrightarrow> same_ids s (store s p n')"
  by (simp add: same_ids_def store_def)

lemma deref_Inr: "deref s p = Inr n \<longleftrightarrow> heap s p = Some n"
  by (simp add: deref_def split: option.splits)












lemma same_ids_rest: "same_ids s s' \<Longrightarrow> same_rest s s'"
  by (simp add: same_ids_def same_rest_def)



lemma destroyNode_live: "destroyNode s p = Inr s' \<Longrightarrow> \<exists>n. heap s p = Some n"
  by (auto simp: destroyNode_def andThen_eq_Inr deref_Inr)





lemma same_ids_store2:
  "heap s p = Some n \<Longrightarrow> m_id n' = m_id n \<Longrightarrow> heap (store s p n') q = Some qn \<Longrightarrow>
   m_id qn' = m_id qn \<Longrightarrow> same_ids s (store (store s p n') q qn')"
  by (blast intro: same_ids_trans same_ids_store)




lemma same_rest_refl [simp]: "same_rest s s"
  by (simp add: same_rest_def)

lemma removed_rest: "removed p s s' \<Longrightarrow> same_rest s s'"
  by (simp add: removed_def)








lemma added_stack:
  "added p i t s s' \<Longrightarrow> m_undo_stack s' = m_undo_stack s \<and> m_undo_stack_idx s' = m_undo_stack_idx s"
  by (simp add: added_def)












section \<open>The id counter\<close>




section \<open>Distinct ids\<close>









lemma node_ids_stack [simp]:
  "node_ids (s\<lparr>m_undo_stack := st\<rparr>) = node_ids s"
  "node_ids (s\<lparr>m_undo_stack_idx := k\<rparr>) = node_ids s"
  "node_ids (setCommand s i c) = node_ids s"
  by (simp_all add: node_ids_def idAt_def nodes_def setCommand_def)

lemma graph_ok_stack [simp]:
  "graph_ok (s\<lparr>m_undo_stack := st\<rparr>) = graph_ok s"
  "graph_ok (s\<lparr>m_undo_stack_idx := k\<rparr>) = graph_ok s"
  "graph_ok (setCommand s i c) = graph_ok s"
  by (simp_all add: graph_ok_def nodes_def setCommand_def)



lemma drop_update_here: "i < length xs \<Longrightarrow> drop i (xs[i := c]) = c # drop (Suc i) xs"
  using Cons_nth_drop_Suc [of i "xs[i := c]"] by simp


















lemma node_ids_other [simp]:
  "node_ids (s\<lparr>m_last_node_id := l\<rparr>) = node_ids s"
  "node_ids (s\<lparr>m_textures := a\<rparr>) = node_ids s"
  "node_ids (s\<lparr>m_vertex_outputs := b\<rparr>) = node_ids s"
  "node_ids (s\<lparr>m_vertex_inputs := c\<rparr>) = node_ids s"
  by (simp_all add: node_ids_def idAt_def nodes_def)

lemma graph_ok_other [simp]:
  "graph_ok (s\<lparr>m_last_node_id := l\<rparr>) = graph_ok s"
  "graph_ok (s\<lparr>m_textures := a\<rparr>) = graph_ok s"
  "graph_ok (s\<lparr>m_vertex_outputs := b\<rparr>) = graph_ok s"
  "graph_ok (s\<lparr>m_vertex_inputs := c\<rparr>) = graph_ok s"
  by (simp_all add: graph_ok_def nodes_def)

lemma nodes_lst: "set (nodes s) = set (lst t s) \<union> set (lst (if t = FRAGMENT then VERTEX else FRAGMENT) s)"
  by (auto simp: nodes_def lst_def)

lemma grown_refl [simp]: "grown s s"
  by (simp add: grown_def same_ids_def)














end
